theory Spec2Isabelle
  imports Main
begin

section \<open>The exercise flow controller (useExerciseFlow)\<close>

text \<open>
  The hook \<open>useExerciseFlow\<close> is a phase-based countdown sequencer. Its React state
  (\<open>phase\<close>, \<open>remainingMs\<close>, \<open>selectedIndex\<close>, \<open>isPaused\<close>) and its refs are the
  fields of one record; every operation takes the state and returns the new one.
  \<open>Date.now()\<close> is the parameter \<open>now\<close> of the operations that read the clock (one
  reading per operation). Each operation sees the state left by the previous one, that
  is, a render happens between two calls.

  The JavaScript runtime owns the pending timers: \<open>setInterval\<close> and \<open>setTimeout\<close>
  return a fresh handle and \<open>clearInterval\<close>/\<open>clearTimeout\<close> remove the timer with that
  handle. The refs \<open>timerRef\<close> and \<open>resultTimeoutRef\<close> only hold handles, so the table
  of pending timers is a field of its own. Handles are positive numbers, hence truthy;
  a ref holding \<open>null\<close> is \<open>None\<close>.
\<close>

datatype ExercisePhase = Idle | Question | Options | Processing | Result

text \<open>
  The closures that the source passes around as \<open>onEnd\<close>: \<open>questionOnEnd\<close> of \<open>start\<close>
  (it captures \<open>delayOptionsCountdown\<close>), the default options timeout
  \<open>() => enterResult(-1)\<close>, and a caller-supplied \<open>onTimeout\<close>, which is opaque and
  identified by a number.
\<close>

datatype callback = QuestionOnEnd bool | OptionsTimeout | CustomTimeout nat

text \<open>Calls made to the collaborators, most recent first.\<close>

datatype event = QuestionShown | AnswerPhaseStarted | Complete | CustomFired nat

text \<open>
  A pending timer: the interval of \<open>startCountdown\<close> with the \<open>start\<close>, \<open>duration\<close> and
  \<open>onEnd\<close> its callback closes over, or a timeout that calls \<open>onComplete\<close>, with the
  time it was set at and its delay.
\<close>

datatype timer = Interval int int callback | Timeout int int

text \<open>
  \<open>finalConfig\<close>: the defaults overridden by the caller's configuration. The optional
  callbacks are modelled by whether they are supplied; \<open>onComplete\<close> is the hook's second
  argument, which \<open>onCompleteRef\<close> mirrors.
\<close>

record finalConfig =
  questionDuration :: int
  optionsDuration :: int
  resultDuration :: int
  onQuestionShown :: bool
  onAnswerPhaseStarted :: bool
  onComplete :: bool

definition DEFAULT_CONFIG :: finalConfig where
  "DEFAULT_CONFIG =
     \<lparr>questionDuration = 1000, optionsDuration = 4000, resultDuration = 1500,
      onQuestionShown = False, onAnswerPhaseStarted = False, onComplete = False\<rparr>"

definition COUNTDOWN_INTERVAL :: int where
  "COUNTDOWN_INTERVAL = 50"

record flow =
  phase :: ExercisePhase
  remainingMs :: int
  selectedIndex :: "int option"
  isPaused :: bool
  timerRef :: "nat option"
  resultTimeoutRef :: "nat option"
  optionsStartTimeRef :: "int option"
  responseTimeMsRef :: "int option"
  pausedRemainingRef :: int
  pausedOnEndRef :: "callback option"
  currentOnEndRef :: "callback option"
  resultStartTimeRef :: int
  pausedResultRemainingRef :: int
  pendingCountdownRef :: "(int \<times> callback) option"
  timers :: "(nat \<times> timer) list"
  nextTimerId :: nat
  fired :: "event list"

text \<open>The state of a freshly constructed controller.\<close>

definition init :: flow where
  "init =
     \<lparr>phase = Idle, remainingMs = 0, selectedIndex = None, isPaused = False,
      timerRef = None, resultTimeoutRef = None,
      optionsStartTimeRef = None, responseTimeMsRef = None,
      pausedRemainingRef = 0, pausedOnEndRef = None, currentOnEndRef = None,
      resultStartTimeRef = 0, pausedResultRemainingRef = 0,
      pendingCountdownRef = None,
      timers = [], nextTimerId = 1, fired = []\<rparr>"

subsection \<open>The runtime's timers\<close>

text \<open>
  \<open>setTimer\<close> is \<open>setInterval\<close>/\<open>setTimeout\<close>: the handle it returns is the value of
  \<open>nextTimerId\<close> before the call. \<open>clearTimeout\<close> drops the timer with the given
  handle, and does nothing for a handle that is no longer pending.
\<close>

definition setTimer :: "timer \<Rightarrow> flow \<Rightarrow> flow" where
  "setTimer t s =
     s\<lparr>timers := (nextTimerId s, t) # timers s, nextTimerId := Suc (nextTimerId s)\<rparr>"

definition clearTimeout :: "nat \<Rightarrow> flow \<Rightarrow> flow" where
  "clearTimeout i s = s\<lparr>timers := filter (\<lambda>e. fst e \<noteq> i) (timers s)\<rparr>"

definition clearInterval :: "nat \<Rightarrow> flow \<Rightarrow> flow" where
  "clearInterval i s = clearTimeout i s"

definition emit :: "bool \<Rightarrow> event \<Rightarrow> flow \<Rightarrow> flow" where
  "emit supplied e s = (if supplied then s\<lparr>fired := e # fired s\<rparr> else s)"

subsection \<open>The operations\<close>

definition clearTimer :: "flow \<Rightarrow> flow" where
  "clearTimer s =
     (let s1 = (case timerRef s of
                  Some i \<Rightarrow> (clearInterval i s)\<lparr>timerRef := None\<rparr>
                | None \<Rightarrow> s)
      in (case resultTimeoutRef s1 of
            Some j \<Rightarrow> (clearTimeout j s1)\<lparr>resultTimeoutRef := None\<rparr>
          | None \<Rightarrow> s1))"

definition startCountdown :: "int \<Rightarrow> callback \<Rightarrow> int \<Rightarrow> flow \<Rightarrow> flow" where
  "startCountdown duration onEnd now s =
     (let s1 = (case timerRef s of Some i \<Rightarrow> clearInterval i s | None \<Rightarrow> s);
          s2 = s1\<lparr>currentOnEndRef := Some onEnd, remainingMs := duration\<rparr>
      in (setTimer (Interval now duration onEnd) s2)\<lparr>timerRef := Some (nextTimerId s2)\<rparr>)"

text \<open>
  The guarded assignment to \<open>responseTimeMsRef\<close>, which \<open>enterProcessing\<close> and
  \<open>enterResult\<close> both contain.
\<close>

definition recordResponseTime :: "int \<Rightarrow> flow \<Rightarrow> flow" where
  "recordResponseTime now s =
     (case optionsStartTimeRef s of
        None \<Rightarrow> s
      | Some t0 \<Rightarrow>
          (case responseTimeMsRef s of
             None \<Rightarrow> s\<lparr>responseTimeMsRef := Some (now - t0)\<rparr>
           | Some r \<Rightarrow> s))"

definition enterProcessing :: "int \<Rightarrow> flow \<Rightarrow> flow" where
  "enterProcessing now s =
     recordResponseTime now ((clearTimer s)\<lparr>phase := Processing\<rparr>)"

definition enterResult :: "finalConfig \<Rightarrow> int \<Rightarrow> bool \<Rightarrow> int \<Rightarrow> flow \<Rightarrow> flow" where
  "enterResult cfg optionIndex skipResultTimeout now s =
     (let s1 = (clearTimer s)\<lparr>selectedIndex := Some optionIndex, phase := Result\<rparr>;
          s2 = recordResponseTime now s1
      in if \<not> skipResultTimeout then
           (let s3 = s2\<lparr>resultStartTimeRef := now\<rparr>
            in (setTimer (Timeout now (resultDuration cfg)) s3)
                 \<lparr>resultTimeoutRef := Some (nextTimerId s3)\<rparr>)
         else s2)"

definition startResultTimeout :: "finalConfig \<Rightarrow> int \<Rightarrow> flow \<Rightarrow> flow" where
  "startResultTimeout cfg now s =
     (if phase s \<noteq> Result then s
      else
        (let s1 = (case resultTimeoutRef s of Some j \<Rightarrow> clearTimeout j s | None \<Rightarrow> s)
         in (setTimer (Timeout now (resultDuration cfg)) s1)
              \<lparr>resultTimeoutRef := Some (nextTimerId s1)\<rparr>))"

text \<open>Running an end callback at time \<open>now\<close>.\<close>

definition runCallback :: "finalConfig \<Rightarrow> callback \<Rightarrow> int \<Rightarrow> flow \<Rightarrow> flow" where
  "runCallback cfg cb now s =
     (case cb of
        QuestionOnEnd delayOptionsCountdown \<Rightarrow>
          (let s1 = s\<lparr>phase := Options, optionsStartTimeRef := Some now\<rparr>;
               s2 = emit (onAnswerPhaseStarted cfg) AnswerPhaseStarted s1
           in if \<not> delayOptionsCountdown
              then startCountdown (optionsDuration cfg) OptionsTimeout now s2
              else s2)
      | OptionsTimeout \<Rightarrow> enterResult cfg (- 1) False now s
      | CustomTimeout k \<Rightarrow> s\<lparr>fired := CustomFired k # fired s\<rparr>)"

definition start :: "finalConfig \<Rightarrow> bool \<Rightarrow> bool \<Rightarrow> int \<Rightarrow> flow \<Rightarrow> flow" where
  "start cfg delayOptionsCountdown delayQuestionCountdown now s =
     (let s1 = (clearTimer s)\<lparr>selectedIndex := None, phase := Question\<rparr>;
          s2 = emit (onQuestionShown cfg) QuestionShown s1;
          questionOnEnd = QuestionOnEnd delayOptionsCountdown
      in if delayQuestionCountdown then
           s2\<lparr>remainingMs := questionDuration cfg,
              pendingCountdownRef := Some (questionDuration cfg, questionOnEnd),
              currentOnEndRef := Some questionOnEnd\<rparr>
         else startCountdown (questionDuration cfg) questionOnEnd now s2)"

definition startOptionsCountdown :: "finalConfig \<Rightarrow> nat option \<Rightarrow> int \<Rightarrow> flow \<Rightarrow> flow" where
  "startOptionsCountdown cfg onTimeout now s =
     (if phase s = Options then
        startCountdown (optionsDuration cfg)
          (case onTimeout of Some k \<Rightarrow> CustomTimeout k | None \<Rightarrow> OptionsTimeout) now
          (s\<lparr>optionsStartTimeRef := Some now\<rparr>)
      else s)"

definition startQuestionCountdown :: "int \<Rightarrow> flow \<Rightarrow> flow" where
  "startQuestionCountdown now s =
     (case pendingCountdownRef s of
        Some pending \<Rightarrow>
          startCountdown (fst pending) (snd pending) now
            (s\<lparr>pendingCountdownRef := None, isPaused := False\<rparr>)
      | None \<Rightarrow> s)"

definition select :: "finalConfig \<Rightarrow> int \<Rightarrow> bool \<Rightarrow> int \<Rightarrow> flow \<Rightarrow> flow" where
  "select cfg index skipResultTimeout now s =
     (if phase s \<noteq> Options \<or> selectedIndex s \<noteq> None then s
      else enterResult cfg index skipResultTimeout now s)"

definition updateSelectedIndex :: "int \<Rightarrow> flow \<Rightarrow> flow" where
  "updateSelectedIndex index s =
     (if phase s = Result then s\<lparr>selectedIndex := Some index\<rparr> else s)"

definition pause :: "finalConfig \<Rightarrow> int \<Rightarrow> flow \<Rightarrow> flow" where
  "pause cfg now s =
     (let s1 = (case timerRef s of
                  Some i \<Rightarrow> (clearInterval i s)\<lparr>timerRef := None\<rparr>
                | None \<Rightarrow> s);
          s2 = s1\<lparr>pausedRemainingRef := remainingMs s,
                  pausedOnEndRef := currentOnEndRef s1\<rparr>;
          s3 = (case resultTimeoutRef s2 of
                  Some j \<Rightarrow>
                    (clearTimeout j s2)
                      \<lparr>resultTimeoutRef := None,
                       pausedResultRemainingRef :=
                         max 0 (resultDuration cfg - (now - resultStartTimeRef s2))\<rparr>
                | None \<Rightarrow> s2)
      in s3\<lparr>isPaused := True\<rparr>)"

definition resume :: "finalConfig \<Rightarrow> int \<Rightarrow> flow \<Rightarrow> flow" where
  "resume cfg now s =
     (let s1 = s\<lparr>isPaused := False\<rparr>
      in if phase s = Result \<and> pausedResultRemainingRef s1 > 0 then
           (let s2 = s1\<lparr>resultStartTimeRef := now\<rparr>
            in (setTimer (Timeout now (pausedResultRemainingRef s2)) s2)
                 \<lparr>resultTimeoutRef := Some (nextTimerId s2),
                  pausedResultRemainingRef := 0\<rparr>)
         else
           (let savedOnEnd = pausedOnEndRef s1;
                savedRemaining = pausedRemainingRef s1;
                s2 = (case savedOnEnd of
                        Some cb \<Rightarrow>
                          if savedRemaining > 0 then startCountdown savedRemaining cb now s1
                          else runCallback cfg cb now s1
                      | None \<Rightarrow> s1)
            in s2\<lparr>pausedOnEndRef := None\<rparr>))"

definition reset :: "flow \<Rightarrow> flow" where
  "reset s =
     (clearTimer s)
       \<lparr>phase := Idle, selectedIndex := None, remainingMs := 0, isPaused := False,
        optionsStartTimeRef := None, responseTimeMsRef := None,
        pausedRemainingRef := 0, pausedOnEndRef := None, currentOnEndRef := None,
        pendingCountdownRef := None, resultStartTimeRef := 0,
        pausedResultRemainingRef := 0\<rparr>"

definition getResponseTimeMs :: "flow \<Rightarrow> int option" where
  "getResponseTimeMs s = responseTimeMsRef s"

subsection \<open>Timer callbacks\<close>

text \<open>
  \<open>tick\<close> is one run of the interval callback of the pending timer \<open>i\<close> at time
  \<open>now\<close>; \<open>fireTimeout\<close> is the run of a pending timeout, which the runtime then
  forgets. A handle that is not pending has no callback to run. The runtime schedules
  the interval every \<open>COUNTDOWN_INTERVAL\<close> milliseconds but promises no exact time, so
  the time of a tick is a parameter.
\<close>

definition tick :: "finalConfig \<Rightarrow> nat \<Rightarrow> int \<Rightarrow> flow \<Rightarrow> flow" where
  "tick cfg i now s =
     (case map_of (timers s) i of
        Some (Interval start0 duration onEnd) \<Rightarrow>
          (let elapsed = now - start0;
               remaining = max 0 (duration - elapsed);
               s1 = s\<lparr>remainingMs := remaining\<rparr>
           in if remaining \<le> 0 then
                runCallback cfg onEnd now
                  (case timerRef s1 of
                     Some j \<Rightarrow> (clearInterval j s1)\<lparr>timerRef := None\<rparr>
                   | None \<Rightarrow> s1)
              else s1)
      | Some (Timeout t0 d) \<Rightarrow> s
      | None \<Rightarrow> s)"

definition fireTimeout :: "finalConfig \<Rightarrow> nat \<Rightarrow> flow \<Rightarrow> flow" where
  "fireTimeout cfg i s =
     (case map_of (timers s) i of
        Some (Timeout t0 d) \<Rightarrow> emit (onComplete cfg) Complete (clearTimeout i s)
      | Some (Interval start0 duration onEnd) \<Rightarrow> s
      | None \<Rightarrow> s)"

text \<open>The interval that \<open>timerRef\<close> holds ticks; a list of such ticks, in order.\<close>

definition tickCurrent :: "finalConfig \<Rightarrow> int \<Rightarrow> flow \<Rightarrow> flow" where
  "tickCurrent cfg now s = (case timerRef s of Some i \<Rightarrow> tick cfg i now s | None \<Rightarrow> s)"

fun ticks :: "finalConfig \<Rightarrow> int list \<Rightarrow> flow \<Rightarrow> flow" where
  "ticks cfg [] s = s"
| "ticks cfg (t # ts) s = ticks cfg ts (tickCurrent cfg t s)"

subsection \<open>Derived notions\<close>

text \<open>
  The timer that a ref points to, if it is still pending; the pending timers that no
  ref holds; the states in which every pending timer is held by a ref.
\<close>

definition activeCountdown :: "flow \<Rightarrow> timer option" where
  "activeCountdown s = (case timerRef s of Some i \<Rightarrow> map_of (timers s) i | None \<Rightarrow> None)"

definition activeResultTimeout :: "flow \<Rightarrow> timer option" where
  "activeResultTimeout s =
     (case resultTimeoutRef s of Some j \<Rightarrow> map_of (timers s) j | None \<Rightarrow> None)"

definition orphans :: "flow \<Rightarrow> (nat \<times> timer) list" where
  "orphans s =
     filter (\<lambda>e. Some (fst e) \<noteq> timerRef s \<and> Some (fst e) \<noteq> resultTimeoutRef s) (timers s)"

definition tracked :: "flow \<Rightarrow> bool" where
  "tracked s = (orphans s = [])"

text \<open>
  What a controller is to its user: the observable state, the timers its two refs point
  to, and the other refs. Timer handles, the runtime's other timers and the record of
  past collaborator calls are left out.
\<close>

definition controllerView ::
  "flow \<Rightarrow> (ExercisePhase \<times> int \<times> int option \<times> bool) \<times> (timer option \<times> timer option) \<times>
     (int option \<times> int option \<times> int \<times> callback option \<times> callback option \<times> int \<times> int \<times>
      (int \<times> callback) option)" where
  "controllerView s =
     ((phase s, remainingMs s, selectedIndex s, isPaused s),
      (activeCountdown s, activeResultTimeout s),
      (optionsStartTimeRef s, responseTimeMsRef s, pausedRemainingRef s, pausedOnEndRef s,
       currentOnEndRef s, resultStartTimeRef s, pausedResultRemainingRef s,
       pendingCountdownRef s))"

text \<open>
  The states that a controller with configuration \<open>cfg\<close> can be in: any sequence of
  operations and timer callbacks from the initial state.
\<close>

inductive reachable :: "finalConfig \<Rightarrow> flow \<Rightarrow> bool" for cfg :: finalConfig where
  r_init: "reachable cfg init"
| r_start: "reachable cfg s \<Longrightarrow> reachable cfg (start cfg dO dQ now s)"
| r_startOptionsCountdown:
    "reachable cfg s \<Longrightarrow> reachable cfg (startOptionsCountdown cfg onTimeout now s)"
| r_startQuestionCountdown: "reachable cfg s \<Longrightarrow> reachable cfg (startQuestionCountdown now s)"
| r_select: "reachable cfg s \<Longrightarrow> reachable cfg (select cfg i sk now s)"
| r_enterProcessing: "reachable cfg s \<Longrightarrow> reachable cfg (enterProcessing now s)"
| r_enterResult: "reachable cfg s \<Longrightarrow> reachable cfg (enterResult cfg i sk now s)"
| r_startResultTimeout: "reachable cfg s \<Longrightarrow> reachable cfg (startResultTimeout cfg now s)"
| r_updateSelectedIndex: "reachable cfg s \<Longrightarrow> reachable cfg (updateSelectedIndex i s)"
| r_pause: "reachable cfg s \<Longrightarrow> reachable cfg (pause cfg now s)"
| r_resume: "reachable cfg s \<Longrightarrow> reachable cfg (resume cfg now s)"
| r_reset: "reachable cfg s \<Longrightarrow> reachable cfg (reset s)"
| r_tick: "reachable cfg s \<Longrightarrow> reachable cfg (tick cfg k now s)"
| r_fireTimeout: "reachable cfg s \<Longrightarrow> reachable cfg (fireTimeout cfg k s)"

text \<open>A response time is stored only if an options start timestamp is.\<close>

definition captured_after_options :: "flow \<Rightarrow> bool" where
  "captured_after_options s = (responseTimeMsRef s = None \<or> optionsStartTimeRef s \<noteq> None)"

text \<open>
  The states reached by the answering operations \<open>start\<close>, \<open>startOptionsCountdown\<close>,
  \<open>startQuestionCountdown\<close> and \<open>select\<close> and by timer callbacks alone, and the
  bookkeeping of timers that these keep: handles are fresh and distinct, every pending
  interval is the one \<open>timerRef\<close> holds and every pending timeout the one
  \<open>resultTimeoutRef\<close> holds.
\<close>

fun isInterval :: "timer \<Rightarrow> bool" where
  "isInterval (Interval st d cb) = True"
| "isInterval (Timeout t0 d) = False"

definition held :: "flow \<Rightarrow> bool" where
  "held s =
     (distinct (map fst (timers s)) \<and>
      (\<forall>e\<in>set (timers s). fst e < nextTimerId s) \<and>
      (\<forall>e\<in>set (timers s). isInterval (snd e) \<longrightarrow> timerRef s = Some (fst e)) \<and>
      (\<forall>e\<in>set (timers s). \<not> isInterval (snd e) \<longrightarrow> resultTimeoutRef s = Some (fst e)))"

inductive answering :: "finalConfig \<Rightarrow> flow \<Rightarrow> bool" for cfg :: finalConfig where
  a_init: "answering cfg init"
| a_start: "answering cfg s \<Longrightarrow> answering cfg (start cfg dO dQ now s)"
| a_startOptionsCountdown:
    "answering cfg s \<Longrightarrow> answering cfg (startOptionsCountdown cfg onTimeout now s)"
| a_startQuestionCountdown: "answering cfg s \<Longrightarrow> answering cfg (startQuestionCountdown now s)"
| a_select: "answering cfg s \<Longrightarrow> answering cfg (select cfg i sk now s)"
| a_tick: "answering cfg s \<Longrightarrow> answering cfg (tick cfg k now s)"
| a_fireTimeout: "answering cfg s \<Longrightarrow> answering cfg (fireTimeout cfg k s)"

section \<open>Basic facts\<close>

lemma clearTimer_eq:
  "clearTimer s = s\<lparr>timerRef := None, resultTimeoutRef := None, timers := orphans s\<rparr>"
  by (cases s) (auto simp: clearTimer_def clearInterval_def clearTimeout_def orphans_def Let_def
      split: option.splits intro: filter_cong)

lemma activeCountdown_startCountdown:
  "activeCountdown (startCountdown d cb now s) = Some (Interval now d cb)"
  by (simp add: activeCountdown_def startCountdown_def setTimer_def Let_def split: option.splits)

lemma tickCurrent_early:
  assumes "activeCountdown s = Some (Interval st d cb)" "now - st < d"
  shows "tickCurrent cfg now s = s\<lparr>remainingMs := d - (now - st)\<rparr>"
  using assms
  by (auto simp: tickCurrent_def tick_def activeCountdown_def Let_def max_def split: option.splits)

lemma tickCurrent_elapsed:
  assumes "activeCountdown s = Some (Interval st d cb)" "d \<le> now - st" "timerRef s = Some i"
  shows "tickCurrent cfg now s =
           runCallback cfg cb now ((clearInterval i s)\<lparr>remainingMs := 0, timerRef := None\<rparr>)"
  using assms
  by (cases s) (auto simp: tickCurrent_def tick_def activeCountdown_def Let_def max_def clearInterval_def clearTimeout_def split: option.splits)

lemma ticks_early:
  assumes "activeCountdown s = Some (Interval st d cb)" "\<forall>t\<in>set ts. t - st < d"
  shows "\<exists>r. ticks cfg ts s = s\<lparr>remainingMs := r\<rparr>"
  using assms
proof (induction ts arbitrary: s)
  case Nil
  have "s = s\<lparr>remainingMs := remainingMs s\<rparr>" by simp
  then show ?case by (metis ticks.simps(1))
next
  case (Cons t ts)
  let ?s1 = "s\<lparr>remainingMs := d - (t - st)\<rparr>"
  have step: "tickCurrent cfg t s = ?s1"
    using Cons.prems by (simp add: tickCurrent_early)
  have "activeCountdown ?s1 = Some (Interval st d cb)"
    using Cons.prems(1) by (simp add: activeCountdown_def split: option.splits)
  then obtain r where "ticks cfg ts ?s1 = ?s1\<lparr>remainingMs := r\<rparr>"
    using Cons.IH Cons.prems(2) by (metis list.set_intros(2))
  then show ?case using step by auto
qed


lemma startCountdown_fields:
  "phase (startCountdown d cb now s) = phase s"
  "selectedIndex (startCountdown d cb now s) = selectedIndex s"
  "remainingMs (startCountdown d cb now s) = d"
  "pendingCountdownRef (startCountdown d cb now s) = pendingCountdownRef s"
  "fired (startCountdown d cb now s) = fired s"
  "optionsStartTimeRef (startCountdown d cb now s) = optionsStartTimeRef s"
  "responseTimeMsRef (startCountdown d cb now s) = responseTimeMsRef s"
  by (simp_all add: startCountdown_def setTimer_def clearInterval_def clearTimeout_def Let_def
      split: option.splits)

lemma enterResult_fields:
  "phase (enterResult cfg i sk now s) = Result"
  "selectedIndex (enterResult cfg i sk now s) = Some i"
  by (simp_all add: enterResult_def recordResponseTime_def setTimer_def Let_def
      split: option.splits)

lemma activeCountdown_remainingMs:
  "activeCountdown (s\<lparr>remainingMs := r\<rparr>) = activeCountdown s"
  by (simp add: activeCountdown_def split: option.splits)

lemma tickCurrent_fires:
  assumes "activeCountdown s = Some (Interval st d cb)" "d \<le> now - st"
  shows "\<exists>s'. tickCurrent cfg now s = runCallback cfg cb now s' \<and>
              phase s' = phase s \<and> selectedIndex s' = selectedIndex s \<and> fired s' = fired s"
proof -
  from assms(1) obtain i where i: "timerRef s = Some i"
    by (auto simp: activeCountdown_def split: option.splits)
  let ?s' = "(clearInterval i s)\<lparr>remainingMs := 0, timerRef := None\<rparr>"
  have "tickCurrent cfg now s = runCallback cfg cb now ?s'"
    using assms i by (rule tickCurrent_elapsed)
  moreover have "phase ?s' = phase s \<and> selectedIndex ?s' = selectedIndex s \<and> fired ?s' = fired s"
    by (simp add: clearInterval_def clearTimeout_def)
  ultimately show ?thesis by blast
qed

lemma start_now:
  "activeCountdown (start cfg dO False t0 s) = Some (Interval t0 (questionDuration cfg) (QuestionOnEnd dO))"
  "phase (start cfg dO dQ t0 s) = Question"
  "selectedIndex (start cfg dO dQ t0 s) = None"
  by (simp_all add: start_def Let_def activeCountdown_startCountdown startCountdown_fields emit_def)

lemma questionOnEnd_now:
  "activeCountdown (runCallback cfg (QuestionOnEnd False) now s) =
     Some (Interval now (optionsDuration cfg) OptionsTimeout)"
  "phase (runCallback cfg (QuestionOnEnd dO) now s) = Options"
  "selectedIndex (runCallback cfg (QuestionOnEnd dO) now s) = selectedIndex s"
  "optionsStartTimeRef (runCallback cfg (QuestionOnEnd dO) now s) = Some now"
  by (simp_all add: runCallback_def Let_def activeCountdown_startCountdown startCountdown_fields
      emit_def)

lemma cao_clearTimer: "captured_after_options (clearTimer s) = captured_after_options s"
  by (simp add: captured_after_options_def clearTimer_eq)

lemma cao_startCountdown:
  "captured_after_options (startCountdown d cb now s) = captured_after_options s"
  by (simp add: captured_after_options_def startCountdown_fields)

lemma cao_emit: "captured_after_options (emit b e s) = captured_after_options s"
  by (simp add: captured_after_options_def emit_def)

lemma cao_recordResponseTime:
  "captured_after_options s \<Longrightarrow> captured_after_options (recordResponseTime now s)"
  by (auto simp: captured_after_options_def recordResponseTime_def split: option.splits)

lemma cao_enterResult:
  "captured_after_options s \<Longrightarrow> captured_after_options (enterResult cfg i sk now s)"
proof -
  assume a: "captured_after_options s"
  let ?s1 = "(clearTimer s)\<lparr>selectedIndex := Some i, phase := Result\<rparr>"
  have "captured_after_options ?s1"
    using a by (simp add: captured_after_options_def clearTimer_eq)
  then have "captured_after_options (recordResponseTime now ?s1)"
    by (rule cao_recordResponseTime)
  then show ?thesis
    by (simp add: enterResult_def Let_def captured_after_options_def setTimer_def)
qed

lemma cao_enterProcessing:
  "captured_after_options s \<Longrightarrow> captured_after_options (enterProcessing now s)"
proof -
  assume a: "captured_after_options s"
  have "captured_after_options ((clearTimer s)\<lparr>phase := Processing\<rparr>)"
    using a by (simp add: captured_after_options_def clearTimer_eq)
  then show ?thesis
    unfolding enterProcessing_def by (rule cao_recordResponseTime)
qed

lemma cao_runCallback:
  "captured_after_options s \<Longrightarrow> captured_after_options (runCallback cfg cb now s)"
proof (cases cb)
  case (QuestionOnEnd d)
  then show ?thesis
    by (simp add: runCallback_def Let_def cao_startCountdown cao_emit)
       (simp add: captured_after_options_def)
next
  case OptionsTimeout
  assume "captured_after_options s"
  then show ?thesis using OptionsTimeout by (simp add: runCallback_def cao_enterResult)
next
  case (CustomTimeout k)
  assume "captured_after_options s"
  then show ?thesis using CustomTimeout
    by (simp add: runCallback_def captured_after_options_def)
qed

lemma cao_start:
  "captured_after_options s \<Longrightarrow> captured_after_options (start cfg dO dQ now s)"
  by (simp add: start_def Let_def cao_startCountdown cao_emit)
     (simp add: captured_after_options_def clearTimer_eq emit_def)

lemma cao_startOptionsCountdown:
  "captured_after_options s \<Longrightarrow> captured_after_options (startOptionsCountdown cfg cb now s)"
  by (simp add: startOptionsCountdown_def cao_startCountdown)
     (simp add: captured_after_options_def)

lemma cao_startQuestionCountdown:
  "captured_after_options s \<Longrightarrow> captured_after_options (startQuestionCountdown now s)"
  by (simp add: startQuestionCountdown_def cao_startCountdown split: option.splits)
     (simp add: captured_after_options_def)

lemma cao_select:
  "captured_after_options s \<Longrightarrow> captured_after_options (select cfg i sk now s)"
  by (simp add: select_def cao_enterResult)

lemma cao_startResultTimeout:
  "captured_after_options s \<Longrightarrow> captured_after_options (startResultTimeout cfg now s)"
  by (simp add: startResultTimeout_def Let_def setTimer_def clearTimeout_def
      captured_after_options_def split: option.splits)

lemma cao_updateSelectedIndex:
  "captured_after_options s \<Longrightarrow> captured_after_options (updateSelectedIndex i s)"
  by (simp add: updateSelectedIndex_def captured_after_options_def)

lemma cao_pause:
  "captured_after_options s \<Longrightarrow> captured_after_options (pause cfg now s)"
  by (simp add: pause_def Let_def clearInterval_def clearTimeout_def
      captured_after_options_def split: option.splits)

lemma cao_field_updates:
  "captured_after_options (s\<lparr>isPaused := b\<rparr>) = captured_after_options s"
  "captured_after_options (s\<lparr>pausedOnEndRef := c\<rparr>) = captured_after_options s"
  "captured_after_options (s\<lparr>remainingMs := r\<rparr>) = captured_after_options s"
  "captured_after_options (s\<lparr>timerRef := tr\<rparr>) = captured_after_options s"
  "captured_after_options (clearInterval k s) = captured_after_options s"
  "captured_after_options (clearTimeout k s) = captured_after_options s"
  by (simp_all add: captured_after_options_def clearInterval_def clearTimeout_def)

lemma cao_resume:
  "captured_after_options s \<Longrightarrow> captured_after_options (resume cfg now s)"
  by (simp add: resume_def Let_def cao_field_updates cao_startCountdown cao_runCallback
      split: option.splits)
     (simp add: captured_after_options_def setTimer_def)

lemma cao_reset: "captured_after_options (reset s)"
  by (simp add: reset_def captured_after_options_def)

lemma cao_tick:
  "captured_after_options s \<Longrightarrow> captured_after_options (tick cfg k now s)"
  by (simp add: tick_def Let_def cao_field_updates cao_runCallback
      split: option.splits timer.splits)

lemma cao_fireTimeout:
  "captured_after_options s \<Longrightarrow> captured_after_options (fireTimeout cfg k s)"
  by (simp add: fireTimeout_def cao_emit cao_field_updates split: option.splits timer.splits)

lemma reachable_captured_after_options:
  "reachable cfg s \<Longrightarrow> captured_after_options s"
proof (induction rule: reachable.induct)
  case r_init
  show ?case by (simp add: captured_after_options_def init_def)
qed (simp_all add: cao_start cao_startOptionsCountdown cao_startQuestionCountdown cao_select
      cao_enterProcessing cao_enterResult cao_startResultTimeout cao_updateSelectedIndex
      cao_pause cao_resume cao_reset cao_tick cao_fireTimeout)

lemma start_delayed:
  "start cfg dO True t0 s =
     (emit (onQuestionShown cfg) QuestionShown
        ((clearTimer s)\<lparr>selectedIndex := None, phase := Question\<rparr>))
       \<lparr>remainingMs := questionDuration cfg,
        pendingCountdownRef := Some (questionDuration cfg, QuestionOnEnd dO),
        currentOnEndRef := Some (QuestionOnEnd dO)\<rparr>"
  by (simp add: start_def Let_def)

lemma start_delayed_fields:
  "phase (start cfg dO True t0 s) = Question"
  "remainingMs (start cfg dO True t0 s) = questionDuration cfg"
  "pendingCountdownRef (start cfg dO True t0 s) = Some (questionDuration cfg, QuestionOnEnd dO)"
  "timerRef (start cfg dO True t0 s) = None"
  "resultTimeoutRef (start cfg dO True t0 s) = None"
  "timers (start cfg dO True t0 s) = orphans s"
  by (simp_all add: start_delayed emit_def clearTimer_eq)

lemma no_timer_no_callback:
  "timers s = [] \<Longrightarrow> tick cfg k t s = s \<and> fireTimeout cfg k s = s"
  by (simp add: tick_def fireTimeout_def)

lemma startQuestionCountdown_pending:
  assumes "pendingCountdownRef s = Some (d, cb)"
  shows "startQuestionCountdown now s =
           startCountdown d cb now (s\<lparr>pendingCountdownRef := None, isPaused := False\<rparr>)"
  using assms by (simp add: startQuestionCountdown_def)

lemma startCountdown_timers:
  "timerRef s = None \<Longrightarrow>
     timers (startCountdown d cb now s) = (nextTimerId s, Interval now d cb) # timers s"
  by (simp add: startCountdown_def setTimer_def Let_def)

lemma reset_eq:
  "reset s = init\<lparr>timers := orphans s, nextTimerId := nextTimerId s, fired := fired s\<rparr>"
  by (cases s) (simp add: reset_def clearTimer_eq init_def orphans_def)

lemma start_after_reset:
  "controllerView (start cfg dO dQ now (init\<lparr>timers := ts, nextTimerId := n, fired := f\<rparr>)) =
     controllerView (start cfg dO dQ now init)"
  "fired (start cfg dO dQ now (init\<lparr>timers := ts, nextTimerId := n, fired := f\<rparr>)) =
     fired (start cfg dO dQ now init) @ f"
  "map snd (timers (start cfg dO dQ now (init\<lparr>timers := [], nextTimerId := n, fired := f\<rparr>))) =
     map snd (timers (start cfg dO dQ now init))"
  by (simp_all add: controllerView_def activeCountdown_def activeResultTimeout_def start_def
      Let_def emit_def clearTimer_def startCountdown_def setTimer_def init_def)

lemmas eval_defs =
  init_def DEFAULT_CONFIG_def setTimer_def clearTimeout_def clearInterval_def emit_def
  clearTimer_def startCountdown_def recordResponseTime_def enterProcessing_def enterResult_def
  startResultTimeout_def runCallback_def start_def startOptionsCountdown_def
  startQuestionCountdown_def select_def updateSelectedIndex_def pause_def resume_def reset_def
  getResponseTimeMs_def tick_def fireTimeout_def tickCurrent_def activeCountdown_def
  activeResultTimeout_def orphans_def tracked_def Let_def

lemma recordResponseTime_cases:
  "optionsStartTimeRef s = Some t0 \<Longrightarrow> responseTimeMsRef s = None \<Longrightarrow>
     responseTimeMsRef (recordResponseTime now s) = Some (now - t0)"
  "responseTimeMsRef s = Some r \<Longrightarrow> responseTimeMsRef (recordResponseTime now s) = Some r"
  "optionsStartTimeRef s = None \<Longrightarrow> recordResponseTime now s = s"
  "optionsStartTimeRef (recordResponseTime now s) = optionsStartTimeRef s"
  by (simp_all add: recordResponseTime_def split: option.splits)

lemma enter_response_time:
  "responseTimeMsRef (enterProcessing now s) =
     responseTimeMsRef (recordResponseTime now s)"
  "responseTimeMsRef (enterResult cfg i sk now s) =
     responseTimeMsRef (recordResponseTime now s)"
  "optionsStartTimeRef (enterProcessing now s) = optionsStartTimeRef s"
  by (simp_all add: enterProcessing_def enterResult_def recordResponseTime_def clearTimer_eq
      setTimer_def Let_def split: option.splits)

lemma pause_countdown:
  assumes "timerRef s = Some k" "resultTimeoutRef s = None"
  shows "pause cfg tp s =
           (clearInterval k s)
             \<lparr>timerRef := None, pausedRemainingRef := remainingMs s,
              pausedOnEndRef := currentOnEndRef s, isPaused := True\<rparr>"
  using assms by (simp add: pause_def Let_def clearInterval_def clearTimeout_def)

lemma resume_countdown:
  assumes "\<not> (phase s = Result \<and> 0 < pausedResultRemainingRef s)"
    and "pausedOnEndRef s = Some cb"
  shows "0 < pausedRemainingRef s \<Longrightarrow>
           resume cfg tr s =
             (startCountdown (pausedRemainingRef s) cb tr (s\<lparr>isPaused := False\<rparr>))
               \<lparr>pausedOnEndRef := None\<rparr>"
    and "pausedRemainingRef s \<le> 0 \<Longrightarrow>
           resume cfg tr s =
             (runCallback cfg cb tr (s\<lparr>isPaused := False\<rparr>))\<lparr>pausedOnEndRef := None\<rparr>"
  using assms by (auto simp: resume_def Let_def)

lemma tickCurrent_elapsed_clearTimer:
  assumes "activeCountdown s = Some (Interval st d cb)" "d \<le> now - st"
    "resultTimeoutRef s = None"
  shows "tickCurrent cfg now s = runCallback cfg cb now ((clearTimer s)\<lparr>remainingMs := 0\<rparr>)"
proof -
  from assms(1) obtain k where k: "timerRef s = Some k"
    by (auto simp: activeCountdown_def split: option.splits)
  have "(clearInterval k s)\<lparr>remainingMs := 0, timerRef := None\<rparr> =
          (clearTimer s)\<lparr>remainingMs := 0\<rparr>"
    using k assms(3)
    by (cases s) (simp add: clearTimer_def clearInterval_def clearTimeout_def)
  then show ?thesis
    using tickCurrent_elapsed [OF assms(1,2) k] by simp
qed


lemma activeCountdown_pausedOnEndRef:
  "activeCountdown (s\<lparr>pausedOnEndRef := x\<rparr>) = activeCountdown s"
  by (simp add: activeCountdown_def split: option.splits)

lemma pause_resume_countdown:
  assumes cd: "activeCountdown s = Some (Interval st d cb)"
    and cur: "currentOnEndRef s = Some cb"
    and nores: "resultTimeoutRef s = None"
    and nosnap: "\<not> (phase s = Result \<and> 0 < pausedResultRemainingRef s)"
  shows "activeCountdown (pause cfg tp s) = None"
    and "isPaused (pause cfg tp s)"
    and "pausedRemainingRef (pause cfg tp s) = remainingMs s"
    and "pausedOnEndRef (pause cfg tp s) = Some cb"
    and "0 < remainingMs s \<Longrightarrow>
           activeCountdown (resume cfg tr (pause cfg tp s)) =
             Some (Interval tr (remainingMs s) cb)"
    and "0 < remainingMs s \<Longrightarrow> fired (resume cfg tr (pause cfg tp s)) = fired s"
    and "0 < remainingMs s \<Longrightarrow> phase (resume cfg tr (pause cfg tp s)) = phase s"
    and "0 < remainingMs s \<Longrightarrow> \<not> isPaused (resume cfg tr (pause cfg tp s))"
    and "0 < remainingMs s \<Longrightarrow> resultTimeoutRef (resume cfg tr (pause cfg tp s)) = None"
proof -
  from cd obtain k where k: "timerRef s = Some k"
    by (auto simp: activeCountdown_def split: option.splits)
  let ?p = "pause cfg tp s"
  have p: "?p = (clearInterval k s)
             \<lparr>timerRef := None, pausedRemainingRef := remainingMs s,
              pausedOnEndRef := currentOnEndRef s, isPaused := True\<rparr>"
    using k nores by (rule pause_countdown)
  show "activeCountdown ?p = None" "isPaused ?p" "pausedRemainingRef ?p = remainingMs s"
    "pausedOnEndRef ?p = Some cb"
    by (simp_all add: p cur activeCountdown_def clearInterval_def clearTimeout_def)
  have pf: "\<not> (phase ?p = Result \<and> 0 < pausedResultRemainingRef ?p)"
    "pausedOnEndRef ?p = Some cb" "pausedRemainingRef ?p = remainingMs s"
    "fired ?p = fired s" "phase ?p = phase s" "resultTimeoutRef ?p = None"
    using nosnap nores by (simp_all add: p cur clearInterval_def clearTimeout_def)
  assume pos: "0 < remainingMs s"
  have r: "resume cfg tr ?p =
      (startCountdown (remainingMs s) cb tr (?p\<lparr>isPaused := False\<rparr>))\<lparr>pausedOnEndRef := None\<rparr>"
    using resume_countdown(1) [OF pf(1) pf(2), of cfg tr] pos by (simp add: pf(3))
  show "activeCountdown (resume cfg tr ?p) = Some (Interval tr (remainingMs s) cb)"
    by (simp add: r activeCountdown_pausedOnEndRef activeCountdown_startCountdown)
  show "fired (resume cfg tr ?p) = fired s" "phase (resume cfg tr ?p) = phase s"
    "\<not> isPaused (resume cfg tr ?p)" "resultTimeoutRef (resume cfg tr ?p) = None"
    by (simp_all add: r startCountdown_fields pf startCountdown_def setTimer_def Let_def
        clearInterval_def clearTimeout_def split: option.splits)
qed

lemma pause_resume_result:
  assumes "resultTimeoutRef u = Some j" "phase u = Result"
    and "0 < resultDuration cfg - (tp - resultStartTimeRef u)"
  shows "activeResultTimeout (pause cfg tp u) = None"
    and "pausedResultRemainingRef (pause cfg tp u) =
           resultDuration cfg - (tp - resultStartTimeRef u)"
    and "activeResultTimeout (resume cfg tr (pause cfg tp u)) =
           Some (Timeout tr (resultDuration cfg - (tp - resultStartTimeRef u)))"
    and "resultStartTimeRef (resume cfg tr (pause cfg tp u)) = tr"
    and "pausedResultRemainingRef (resume cfg tr (pause cfg tp u)) = 0"
    and "fired (resume cfg tr (pause cfg tp u)) = fired u"
    and "phase (resume cfg tr (pause cfg tp u)) = Result"
  using assms
  by (simp_all add: pause_def resume_def Let_def activeResultTimeout_def setTimer_def
      clearInterval_def clearTimeout_def max_def split: option.splits)

lemma held_clearTimer: "held s \<Longrightarrow> held (clearTimer s) \<and> timers (clearTimer s) = []"
  by (auto simp: held_def clearTimer_eq orphans_def filter_empty_conv distinct_map_filter)

lemma held_startCountdown: "held s \<Longrightarrow> held (startCountdown d cb now s)"
  by (auto simp: held_def startCountdown_def setTimer_def clearInterval_def clearTimeout_def
      Let_def less_Suc_eq distinct_map_filter split: option.splits)

lemma held_enterResult: "held s \<Longrightarrow> held (enterResult cfg i sk now s)"
proof -
  assume h: "held s"
  let ?s1 = "(clearTimer s)\<lparr>selectedIndex := Some i, phase := Result\<rparr>"
  have "held ?s1 \<and> timers ?s1 = []"
    using held_clearTimer [OF h] by (simp add: held_def)
  then have "held (recordResponseTime now ?s1) \<and> timers (recordResponseTime now ?s1) = []"
    by (simp add: held_def recordResponseTime_def split: option.splits)
  then show ?thesis
    by (simp add: enterResult_def Let_def held_def setTimer_def)
qed

lemma held_updates:
  "held (s\<lparr>phase := p\<rparr>) = held s"
  "held (s\<lparr>optionsStartTimeRef := a\<rparr>) = held s"
  "held (s\<lparr>selectedIndex := b\<rparr>) = held s"
  "held (s\<lparr>remainingMs := c\<rparr>) = held s"
  "held (s\<lparr>fired := d\<rparr>) = held s"
  "held (s\<lparr>isPaused := e\<rparr>) = held s"
  "held (s\<lparr>pendingCountdownRef := f\<rparr>) = held s"
  "held (s\<lparr>currentOnEndRef := g\<rparr>) = held s"
  "held (emit b' ev s) = held s"
  by (simp_all add: held_def emit_def)

lemma held_runCallback: "held s \<Longrightarrow> held (runCallback cfg cb now s)"
  by (cases cb) (simp_all add: runCallback_def Let_def held_updates held_startCountdown
      held_enterResult)

lemma held_start: "held s \<Longrightarrow> held (start cfg dO dQ now s)"
  using held_clearTimer [of s]
  by (simp add: start_def Let_def held_updates held_startCountdown)

lemma held_startOptionsCountdown:
  "held s \<Longrightarrow> held (startOptionsCountdown cfg onTimeout now s)"
  by (simp add: startOptionsCountdown_def held_updates held_startCountdown)

lemma held_startQuestionCountdown: "held s \<Longrightarrow> held (startQuestionCountdown now s)"
  by (simp add: startQuestionCountdown_def held_updates held_startCountdown
      split: option.splits)

lemma held_select: "held s \<Longrightarrow> held (select cfg i sk now s)"
  by (simp add: select_def held_enterResult)

lemma held_clearInterval_ref:
  "held s \<Longrightarrow> timerRef s = Some j \<Longrightarrow> held ((clearInterval j s)\<lparr>timerRef := None\<rparr>)"
  by (auto simp: held_def clearInterval_def clearTimeout_def distinct_map_filter)

lemma held_tick: "held s \<Longrightarrow> held (tick cfg k now s)"
  by (auto simp: tick_def Let_def held_updates held_runCallback held_clearInterval_ref
      split: option.splits timer.splits)

lemma held_clearTimeout: "held s \<Longrightarrow> held (clearTimeout k s)"
  by (auto simp: held_def clearTimeout_def distinct_map_filter)

lemma held_fireTimeout: "held s \<Longrightarrow> held (fireTimeout cfg k s)"
  by (simp add: fireTimeout_def held_updates held_clearTimeout
      split: option.splits timer.splits)

lemma answering_held: "answering cfg s \<Longrightarrow> held s"
proof (induction rule: answering.induct)
  case a_init
  show ?case by (simp add: held_def init_def)
qed (simp_all add: held_start held_startOptionsCountdown held_startQuestionCountdown
      held_select held_tick held_fireTimeout)


lemma same_handle_at_most_one:
  assumes "distinct (map fst xs)" "\<forall>e\<in>set xs. fst e = i"
  shows "length xs \<le> 1"
proof (cases xs)
  case Nil
  then show ?thesis by simp
next
  case (Cons x ys)
  show ?thesis
  proof (cases ys)
    case Nil
    with Cons show ?thesis by simp
  next
    case (Cons y zs)
    with \<open>xs = x # ys\<close> assms have "fst x = fst y" "fst x \<noteq> fst y" by auto
    then show ?thesis by simp
  qed
qed

lemma held_at_most_one_each:
  assumes "held s"
  shows "length (filter (\<lambda>e. isInterval (snd e)) (timers s)) \<le> 1"
    and "length (filter (\<lambda>e. \<not> isInterval (snd e)) (timers s)) \<le> 1"
    and "length (timers s) \<le> 2"
proof -
  have d: "distinct (map fst (timers s))" using assms by (simp add: held_def)
  let ?I = "filter (\<lambda>e. isInterval (snd e)) (timers s)"
  let ?T = "filter (\<lambda>e. \<not> isInterval (snd e)) (timers s)"
  have i: "length ?I \<le> 1"
  proof (cases "timerRef s")
    case None
    then have "?I = []" using assms by (fastforce simp: held_def filter_empty_conv)
    then show ?thesis by simp
  next
    case (Some k)
    have "distinct (map fst ?I)" using d by (rule distinct_map_filter)
    moreover have "\<forall>e\<in>set ?I. fst e = k" using assms Some by (auto simp: held_def)
    ultimately show ?thesis by (rule same_handle_at_most_one)
  qed
  have t: "length ?T \<le> 1"
  proof (cases "resultTimeoutRef s")
    case None
    then have "?T = []" using assms by (fastforce simp: held_def filter_empty_conv)
    then show ?thesis by simp
  next
    case (Some k)
    have "distinct (map fst ?T)" using d by (rule distinct_map_filter)
    moreover have "\<forall>e\<in>set ?T. fst e = k" using assms Some by (auto simp: held_def)
    ultimately show ?thesis by (rule same_handle_at_most_one)
  qed
  show "length ?I \<le> 1" "length ?T \<le> 1" by (rule i, rule t)
  have "length (timers s) = length ?I + length ?T"
    by (rule sum_length_filter_compl [symmetric])
  then show "length (timers s) \<le> 2" using i t by simp
qed

section \<open>Pending timers\<close>

text \<open>
  C1. The claim is that at most one timer is pending whatever \<open>start\<close>,
  \<open>startOptionsCountdown\<close>, \<open>startQuestionCountdown\<close> and \<open>select\<close> are called. The
  code has two timers pending after this sequence: a deferred \<open>start\<close> leaves a
  countdown descriptor pending, the next \<open>start()\<close> does not clear it, the cycle is
  answered, and \<open>startQuestionCountdown()\<close> then starts the stale descriptor's interval
  while the result timeout is pending (\<open>startCountdown\<close> cancels only the interval that
  \<open>timerRef\<close> holds).
\<close>

theorem stale_descriptor_two_timers:
  "timers
     (startQuestionCountdown 1600
        (select DEFAULT_CONFIG 0 False 1500
           (tickCurrent DEFAULT_CONFIG 1010
              (start DEFAULT_CONFIG False False 10
                 (start DEFAULT_CONFIG False True 0 init))))) =
     [(4, Interval 1600 1000 (QuestionOnEnd False)), (3, Timeout 1500 1500)]"
  by (simp add: eval_defs)

theorem stale_descriptor_two_timers_witness:
  "length
     (timers
        (startQuestionCountdown 1600
           (select DEFAULT_CONFIG 0 False 1500
              (tickCurrent DEFAULT_CONFIG 1010
                 (start DEFAULT_CONFIG False False 10
                    (start DEFAULT_CONFIG False True 0 init)))))) = 2"
  by (simp add: stale_descriptor_two_timers)

text \<open>When that interval elapses the answered cycle is back in the options phase.\<close>

lemma stale_descriptor_reopens_options:
  "phase
     (tickCurrent DEFAULT_CONFIG 2600
     (startQuestionCountdown 1600
        (select DEFAULT_CONFIG 0 False 1500
           (tickCurrent DEFAULT_CONFIG 1010
              (start DEFAULT_CONFIG False False 10
                 (start DEFAULT_CONFIG False True 0 init)))))) = Options"
  by (simp add: eval_defs)

text \<open>
  What the four operations and the timer callbacks do keep: the pending intervals are
  all held by \<open>timerRef\<close> and the pending timeouts by \<open>resultTimeoutRef\<close>, under
  distinct handles, so at most one of each kind is pending.
\<close>

lemma answering_at_most_one_each:
  assumes "answering cfg s"
  shows "length (filter (\<lambda>e. isInterval (snd e)) (timers s)) \<le> 1"
    and "length (filter (\<lambda>e. \<not> isInterval (snd e)) (timers s)) \<le> 1"
    and "length (timers s) \<le> 2"
  using held_at_most_one_each [OF answering_held [OF assms]] .

section \<open>Pause and resume\<close>




text \<open>
  \<open>pause()\<close> tests the refs, not the runtime's timers, and the timeout callback does
  not clear \<open>resultTimeoutRef\<close> (the interval callback does clear \<open>timerRef\<close>): once
  the result timeout has fired no timer is pending, yet a pause still records a
  result-timeout remainder and the resume sets a second timeout.
\<close>

lemma spent_result_handle_is_paused:
  "timers
     (fireTimeout DEFAULT_CONFIG 4
        (resume DEFAULT_CONFIG 9000
           (pause DEFAULT_CONFIG 2100
              (select DEFAULT_CONFIG 0 False 1500
                 (tickCurrent DEFAULT_CONFIG 1000
                    (start DEFAULT_CONFIG False False 0 init)))))) = [] \<and>
   resultTimeoutRef
     (fireTimeout DEFAULT_CONFIG 4
        (resume DEFAULT_CONFIG 9000
           (pause DEFAULT_CONFIG 2100
              (select DEFAULT_CONFIG 0 False 1500
                 (tickCurrent DEFAULT_CONFIG 1000
                    (start DEFAULT_CONFIG False False 0 init)))))) = Some 4 \<and>
   pausedResultRemainingRef
     (pause DEFAULT_CONFIG 9950
        (fireTimeout DEFAULT_CONFIG 4
           (resume DEFAULT_CONFIG 9000
              (pause DEFAULT_CONFIG 2100
                 (select DEFAULT_CONFIG 0 False 1500
                    (tickCurrent DEFAULT_CONFIG 1000
                       (start DEFAULT_CONFIG False False 0 init))))))) = 550 \<and>
   timers
     (resume DEFAULT_CONFIG 9990
        (pause DEFAULT_CONFIG 9950
           (fireTimeout DEFAULT_CONFIG 4
              (resume DEFAULT_CONFIG 9000
                 (pause DEFAULT_CONFIG 2100
                    (select DEFAULT_CONFIG 0 False 1500
                       (tickCurrent DEFAULT_CONFIG 1000
                          (start DEFAULT_CONFIG False False 0 init)))))))) =
     [(5, Timeout 9990 550)]"
  by (simp add: eval_defs)

text \<open>
  C6. A countdown is running, its end callback is the current one and no result timeout
  is active: \<open>pause()\<close> stops it and snapshots the displayed \<open>remainingMs\<close> (the value
  of the last tick, or the full duration before the first tick) with the end callback.
  If the snapshot is positive, \<open>resume()\<close> at any later time \<open>tr\<close> starts a countdown
  of exactly the snapshot's length from \<open>tr\<close> with the same callback, and runs no
  callback itself; a tick before the snapshot's length has elapsed since \<open>tr\<close> only
  updates \<open>remainingMs\<close>, a tick at or after it runs the end callback. If the paused
  countdown snapshot is zero, \<open>resume()\<close> runs the end callback at once. A result
  timeout paused at \<open>tq\<close> with positive remaining time
  \<open>resultDuration - (tq - resultStartTime)\<close> is set again by \<open>resume()\<close> with that
  delay, and \<open>resultStartTime\<close> becomes the time of the resume.
\<close>

theorem pause_resume_keeps_snapshot:
  "(activeCountdown s = Some (Interval st d cb) \<and> currentOnEndRef s = Some cb \<and>
    resultTimeoutRef s = None \<and> \<not> (phase s = Result \<and> 0 < pausedResultRemainingRef s) \<longrightarrow>
      (let p = pause cfg tp s; r = resume cfg tr p
       in activeCountdown p = None \<and> isPaused p \<and>
          pausedRemainingRef p = remainingMs s \<and> pausedOnEndRef p = Some cb \<and>
          (0 < remainingMs s \<longrightarrow>
             activeCountdown r = Some (Interval tr (remainingMs s) cb) \<and>
             fired r = fired s \<and> phase r = phase s \<and> \<not> isPaused r \<and>
             (ta - tr < remainingMs s \<longrightarrow>
                tickCurrent cfg ta r = r\<lparr>remainingMs := remainingMs s - (ta - tr)\<rparr>) \<and>
             (remainingMs s \<le> tb - tr \<longrightarrow>
                tickCurrent cfg tb r =
                  runCallback cfg cb tb ((clearTimer r)\<lparr>remainingMs := 0\<rparr>))))) \<and>
   (pausedOnEndRef w = Some cb' \<and> pausedRemainingRef w \<le> 0 \<and>
    \<not> (phase w = Result \<and> 0 < pausedResultRemainingRef w) \<longrightarrow>
      resume cfg tw w =
        (runCallback cfg cb' tw (w\<lparr>isPaused := False\<rparr>))\<lparr>pausedOnEndRef := None\<rparr>) \<and>
   (resultTimeoutRef u = Some j \<and> phase u = Result \<and>
    0 < resultDuration cfg - (tq - resultStartTimeRef u) \<longrightarrow>
      (let p = pause cfg tq u; r = resume cfg tv p
       in activeResultTimeout p = None \<and>
          pausedResultRemainingRef p = resultDuration cfg - (tq - resultStartTimeRef u) \<and>
          activeResultTimeout r =
            Some (Timeout tv (resultDuration cfg - (tq - resultStartTimeRef u))) \<and>
          resultStartTimeRef r = tv \<and> pausedResultRemainingRef r = 0 \<and>
          fired r = fired u \<and> phase r = Result))"
proof -
  have A: "let p = pause cfg tp s; r = resume cfg tr p
       in activeCountdown p = None \<and> isPaused p \<and>
          pausedRemainingRef p = remainingMs s \<and> pausedOnEndRef p = Some cb \<and>
          (0 < remainingMs s \<longrightarrow>
             activeCountdown r = Some (Interval tr (remainingMs s) cb) \<and>
             fired r = fired s \<and> phase r = phase s \<and> \<not> isPaused r \<and>
             (ta - tr < remainingMs s \<longrightarrow>
                tickCurrent cfg ta r = r\<lparr>remainingMs := remainingMs s - (ta - tr)\<rparr>) \<and>
             (remainingMs s \<le> tb - tr \<longrightarrow>
                tickCurrent cfg tb r =
                  runCallback cfg cb tb ((clearTimer r)\<lparr>remainingMs := 0\<rparr>)))"
    if h: "activeCountdown s = Some (Interval st d cb)" "currentOnEndRef s = Some cb"
      "resultTimeoutRef s = None" "\<not> (phase s = Result \<and> 0 < pausedResultRemainingRef s)"
  proof -
    note f = pause_resume_countdown [OF h]
    let ?r = "resume cfg tr (pause cfg tp s)"
    have e: "tickCurrent cfg ta ?r = ?r\<lparr>remainingMs := remainingMs s - (ta - tr)\<rparr>"
      if "0 < remainingMs s" "ta - tr < remainingMs s"
      by (rule tickCurrent_early [OF f(5) [OF that(1)] that(2)])
    have l: "tickCurrent cfg tb ?r = runCallback cfg cb tb ((clearTimer ?r)\<lparr>remainingMs := 0\<rparr>)"
      if "0 < remainingMs s" "remainingMs s \<le> tb - tr"
      by (rule tickCurrent_elapsed_clearTimer [OF f(5) [OF that(1)] that(2) f(9) [OF that(1)]])
    show ?thesis
      unfolding Let_def using f(1-8) e l by blast
  qed
  have B: "resume cfg tw w =
        (runCallback cfg cb' tw (w\<lparr>isPaused := False\<rparr>))\<lparr>pausedOnEndRef := None\<rparr>"
    if "pausedOnEndRef w = Some cb'" "pausedRemainingRef w \<le> 0"
      "\<not> (phase w = Result \<and> 0 < pausedResultRemainingRef w)"
    using resume_countdown(2) [OF that(3) that(1) that(2)] .
  have C: "let p = pause cfg tq u; r = resume cfg tv p
       in activeResultTimeout p = None \<and>
          pausedResultRemainingRef p = resultDuration cfg - (tq - resultStartTimeRef u) \<and>
          activeResultTimeout r =
            Some (Timeout tv (resultDuration cfg - (tq - resultStartTimeRef u))) \<and>
          resultStartTimeRef r = tv \<and> pausedResultRemainingRef r = 0 \<and>
          fired r = fired u \<and> phase r = Result"
    if "resultTimeoutRef u = Some j" "phase u = Result"
      "0 < resultDuration cfg - (tq - resultStartTimeRef u)"
    unfolding Let_def using pause_resume_result [OF that] by blast
  show ?thesis using A B C by blast
qed


theorem pause_resume_keeps_snapshot_witness:
  "activeCountdown (tickCurrent DEFAULT_CONFIG 50 (start DEFAULT_CONFIG False False 0 init)) =
     Some (Interval 0 1000 (QuestionOnEnd False)) \<and>
   remainingMs (tickCurrent DEFAULT_CONFIG 50 (start DEFAULT_CONFIG False False 0 init)) = 950 \<and>
   activeCountdown
     (resume DEFAULT_CONFIG 5000
        (pause DEFAULT_CONFIG 90
           (tickCurrent DEFAULT_CONFIG 50 (start DEFAULT_CONFIG False False 0 init)))) =
     Some (Interval 5000 950 (QuestionOnEnd False)) \<and>
   remainingMs
     (tickCurrent DEFAULT_CONFIG 5050
        (resume DEFAULT_CONFIG 5000
           (pause DEFAULT_CONFIG 90
              (tickCurrent DEFAULT_CONFIG 50 (start DEFAULT_CONFIG False False 0 init))))) = 900 \<and>
   phase
     (tickCurrent DEFAULT_CONFIG 5950
        (resume DEFAULT_CONFIG 5000
           (pause DEFAULT_CONFIG 90
              (tickCurrent DEFAULT_CONFIG 50 (start DEFAULT_CONFIG False False 0 init))))) =
     Options \<and>
   pausedRemainingRef
     (pause DEFAULT_CONFIG 1200
        (tickCurrent DEFAULT_CONFIG 1000 (start DEFAULT_CONFIG True False 0 init))) = 0 \<and>
   optionsStartTimeRef
     (resume DEFAULT_CONFIG 1300
        (pause DEFAULT_CONFIG 1200
           (tickCurrent DEFAULT_CONFIG 1000 (start DEFAULT_CONFIG True False 0 init)))) =
     Some 1300 \<and>
   activeResultTimeout
     (resume DEFAULT_CONFIG 9000
        (pause DEFAULT_CONFIG 2100
           (select DEFAULT_CONFIG 0 False 1500
              (tickCurrent DEFAULT_CONFIG 1000 (start DEFAULT_CONFIG False False 0 init))))) =
     Some (Timeout 9000 900)"
proof -
  let ?s = "tickCurrent DEFAULT_CONFIG 50 (start DEFAULT_CONFIG False False 0 init)"
  let ?w = "pause DEFAULT_CONFIG 1200
              (tickCurrent DEFAULT_CONFIG 1000 (start DEFAULT_CONFIG True False 0 init))"
  let ?u = "select DEFAULT_CONFIG 0 False 1500
              (tickCurrent DEFAULT_CONFIG 1000 (start DEFAULT_CONFIG False False 0 init))"
  have hs: "activeCountdown ?s = Some (Interval 0 1000 (QuestionOnEnd False))"
      "currentOnEndRef ?s = Some (QuestionOnEnd False)" "resultTimeoutRef ?s = None"
      "\<not> (phase ?s = Result \<and> 0 < pausedResultRemainingRef ?s)" "remainingMs ?s = 950"
    by (simp_all add: eval_defs)
  have hw: "pausedOnEndRef ?w = Some (QuestionOnEnd True)" "pausedRemainingRef ?w \<le> 0"
      "\<not> (phase ?w = Result \<and> 0 < pausedResultRemainingRef ?w)" "pausedRemainingRef ?w = 0"
    by (simp_all add: eval_defs)
  have hu: "resultTimeoutRef ?u = Some 3" "phase ?u = Result"
      "0 < resultDuration DEFAULT_CONFIG - (2100 - resultStartTimeRef ?u)"
      "resultDuration DEFAULT_CONFIG - (2100 - resultStartTimeRef ?u) = 900"
    by (simp_all add: eval_defs)
  note th = pause_resume_keeps_snapshot
    [of ?s 0 1000 "QuestionOnEnd False" DEFAULT_CONFIG 90 5000 5050 5950
        ?w "QuestionOnEnd True" 1300 ?u 3 2100 9000]
  let ?r = "resume DEFAULT_CONFIG 5000 (pause DEFAULT_CONFIG 90 ?s)"
  have a: "activeCountdown ?r = Some (Interval 5000 950 (QuestionOnEnd False))"
    and b: "tickCurrent DEFAULT_CONFIG 5050 ?r = ?r\<lparr>remainingMs := 950 - (5050 - 5000)\<rparr>"
    and c: "tickCurrent DEFAULT_CONFIG 5950 ?r =
              runCallback DEFAULT_CONFIG (QuestionOnEnd False) 5950
                ((clearTimer ?r)\<lparr>remainingMs := 0\<rparr>)"
    using th hs by (simp_all add: Let_def)
  have d: "resume DEFAULT_CONFIG 1300 ?w =
        (runCallback DEFAULT_CONFIG (QuestionOnEnd True) 1300 (?w\<lparr>isPaused := False\<rparr>))
          \<lparr>pausedOnEndRef := None\<rparr>"
    using th hw(1-3) by blast
  have e: "activeResultTimeout (resume DEFAULT_CONFIG 9000 (pause DEFAULT_CONFIG 2100 ?u)) =
             Some (Timeout 9000 900)"
    using th hu by (simp add: Let_def)
  have b': "remainingMs (tickCurrent DEFAULT_CONFIG 5050 ?r) = 900"
    unfolding b by simp
  have c': "phase (tickCurrent DEFAULT_CONFIG 5950 ?r) = Options"
    unfolding c by (simp add: questionOnEnd_now)
  have d': "optionsStartTimeRef (resume DEFAULT_CONFIG 1300 ?w) = Some 1300"
    unfolding d by (simp add: questionOnEnd_now)
  show ?thesis using hs(1,5) a b' c' hw(4) d' e by blast
qed

text \<open>
  As first stated, C6 has the end callback fire exactly the unelapsed time after the
  resume. A countdown of 1000 started at 0 and last ticked at 50 is paused at 90, with
  910 unelapsed: the resumed countdown is 950 long and a tick 910 after the resume does
  not end it.
\<close>

theorem pause_snapshot_counterexample:
  "activeCountdown (tickCurrent DEFAULT_CONFIG 50 (start DEFAULT_CONFIG False False 0 init)) =
     Some (Interval 0 1000 (QuestionOnEnd False)) \<and>
   activeCountdown
     (resume DEFAULT_CONFIG 5000
        (pause DEFAULT_CONFIG 90
           (tickCurrent DEFAULT_CONFIG 50 (start DEFAULT_CONFIG False False 0 init)))) =
     Some (Interval 5000 950 (QuestionOnEnd False)) \<and>
   phase
     (tickCurrent DEFAULT_CONFIG (5000 + (1000 - (90 - 0)))
        (resume DEFAULT_CONFIG 5000
           (pause DEFAULT_CONFIG 90
              (tickCurrent DEFAULT_CONFIG 50 (start DEFAULT_CONFIG False False 0 init))))) =
     Question"
  by (simp add: eval_defs)

text \<open>
  \<open>startResultTimeout()\<close> sets the timeout without setting \<open>resultStartTimeRef\<close>, so a
  pause then computes the remaining time from a start time that was never recorded:
  with wall-clock times it is zero, the timeout is not set again and the resume restarts
  the options countdown that the answer had ended.
\<close>

lemma manual_result_timeout_lost_on_pause:
  "timers
     (resume DEFAULT_CONFIG 1700000009000
        (pause DEFAULT_CONFIG 1700000003000
           (startResultTimeout DEFAULT_CONFIG 1700000002500
              (select DEFAULT_CONFIG 0 True 1700000002000
                 (tickCurrent DEFAULT_CONFIG 1700000001000
                    (start DEFAULT_CONFIG False False 1700000000000 init)))))) =
     [(4, Interval 1700000009000 4000 OptionsTimeout)]"
  by (simp add: eval_defs)

section \<open>Response time\<close>

text \<open>
  C3. The response time is captured at the first transition into processing or result
  that is made while an options start timestamp is recorded and no response time is
  stored: \<open>enterProcessing\<close> and \<open>enterResult\<close> then store the time elapsed since
  the recorded timestamp. That timestamp is the most recent of the entry into the
  options phase and the calls of \<open>startOptionsCountdown()\<close>, which both set it to the
  current time. Once a response time is stored, \<open>enterProcessing\<close> and \<open>enterResult\<close>
  keep it; in particular \<open>enterResult\<close> after \<open>enterProcessing\<close> leaves
  \<open>getResponseTimeMs()\<close> unchanged, whatever the state.
\<close>

theorem response_time_captured_once:
  "(optionsStartTimeRef s = Some t0 \<and> responseTimeMsRef s = None \<longrightarrow>
      getResponseTimeMs (enterProcessing now s) = Some (now - t0) \<and>
      getResponseTimeMs (enterResult cfg i sk now s) = Some (now - t0)) \<and>
   (responseTimeMsRef u = Some r \<longrightarrow>
      getResponseTimeMs (enterProcessing now u) = Some r \<and>
      getResponseTimeMs (enterResult cfg i sk now u) = Some r) \<and>
   getResponseTimeMs (enterResult cfg i sk later (enterProcessing now s)) =
     getResponseTimeMs (enterProcessing now s) \<and>
   optionsStartTimeRef (runCallback cfg (QuestionOnEnd dO) now s) = Some now \<and>
   (phase s = Options \<longrightarrow>
      optionsStartTimeRef (startOptionsCountdown cfg onTimeout now s) = Some now)"
proof -
  have a: "getResponseTimeMs (enterResult cfg i sk later (enterProcessing now s)) =
     getResponseTimeMs (enterProcessing now s)"
    by (cases "optionsStartTimeRef s"; cases "responseTimeMsRef s")
       (simp_all add: getResponseTimeMs_def enter_response_time recordResponseTime_cases)
  have b: "phase s = Options \<Longrightarrow>
      optionsStartTimeRef (startOptionsCountdown cfg onTimeout now s) = Some now"
    by (simp add: startOptionsCountdown_def startCountdown_fields)
  show ?thesis
    using a b
    by (simp add: getResponseTimeMs_def enter_response_time recordResponseTime_cases
        questionOnEnd_now)
qed


theorem response_time_captured_once_witness:
  "optionsStartTimeRef (tickCurrent DEFAULT_CONFIG 1000 (start DEFAULT_CONFIG False False 0 init)) =
     Some 1000 \<and>
   responseTimeMsRef (tickCurrent DEFAULT_CONFIG 1000 (start DEFAULT_CONFIG False False 0 init)) =
     None \<and>
   phase (tickCurrent DEFAULT_CONFIG 1000 (start DEFAULT_CONFIG False False 0 init)) = Options \<and>
   responseTimeMsRef
     (enterProcessing 1800
        (tickCurrent DEFAULT_CONFIG 1000 (start DEFAULT_CONFIG False False 0 init))) = Some 800 \<and>
   getResponseTimeMs
     (enterResult DEFAULT_CONFIG 2 False 2500
        (enterProcessing 1800
           (tickCurrent DEFAULT_CONFIG 1000 (start DEFAULT_CONFIG False False 0 init)))) =
     Some 800 \<and>
   optionsStartTimeRef
     (startOptionsCountdown DEFAULT_CONFIG None 2500
        (tickCurrent DEFAULT_CONFIG 1000 (start DEFAULT_CONFIG False False 0 init))) = Some 2500"
proof -
  let ?s = "tickCurrent DEFAULT_CONFIG 1000 (start DEFAULT_CONFIG False False 0 init)"
  let ?u = "enterProcessing 1800 ?s"
  have h: "optionsStartTimeRef ?s = Some 1000" "responseTimeMsRef ?s = None" "phase ?s = Options"
    by (simp_all add: eval_defs)
  note th = response_time_captured_once
    [of ?s 1000 1800 DEFAULT_CONFIG 2 False ?u 800 2500 False None]
  have u: "responseTimeMsRef ?u = Some 800"
    using th h by (simp add: getResponseTimeMs_def)
  have e: "getResponseTimeMs (enterResult DEFAULT_CONFIG 2 False 2500 ?u) = Some 800"
    using th h u by (simp add: getResponseTimeMs_def)
  have o: "optionsStartTimeRef (startOptionsCountdown DEFAULT_CONFIG None 2500 ?s) = Some 2500"
    using response_time_captured_once
      [of ?s 1000 2500 DEFAULT_CONFIG 2 False ?u 800 2500 False None] h
    by blast
  show ?thesis using h u e o by blast
qed

text \<open>
  As first stated, C3 measures the response time from the moment the options phase
  began. With \<open>delayOptionsCountdown\<close> the options phase begins at 1000, the countdown is
  started by \<open>startOptionsCountdown()\<close> at 3000 and the answer comes at 3500: the
  response time is 500, not 2500.
\<close>

theorem response_time_rearmed_counterexample:
  "phase (tickCurrent DEFAULT_CONFIG 1000 (start DEFAULT_CONFIG True False 0 init)) = Options \<and>
   optionsStartTimeRef (tickCurrent DEFAULT_CONFIG 1000 (start DEFAULT_CONFIG True False 0 init)) =
     Some 1000 \<and>
   getResponseTimeMs
     (select DEFAULT_CONFIG 0 False 3500
        (startOptionsCountdown DEFAULT_CONFIG None 3000
           (tickCurrent DEFAULT_CONFIG 1000 (start DEFAULT_CONFIG True False 0 init)))) =
     Some 500 \<and>
   getResponseTimeMs
     (select DEFAULT_CONFIG 0 False 3500
        (startOptionsCountdown DEFAULT_CONFIG None 3000
           (tickCurrent DEFAULT_CONFIG 1000 (start DEFAULT_CONFIG True False 0 init)))) \<noteq>
     Some (3500 - 1000)"
  by (simp add: eval_defs)

text \<open>
  \<open>start()\<close> clears neither the options start timestamp nor the stored response time
  (only \<open>reset()\<close> does): a second cycle begun without \<open>reset()\<close> and answered 2000 ms
  into its options phase still reports the 500 ms of the first cycle.
\<close>

lemma second_cycle_keeps_first_response_time:
  "getResponseTimeMs
     (select DEFAULT_CONFIG 1 False 9000
        (tickCurrent DEFAULT_CONFIG 7000
           (start DEFAULT_CONFIG False False 6000
              (select DEFAULT_CONFIG 0 False 1500
                 (tickCurrent DEFAULT_CONFIG 1000
                    (start DEFAULT_CONFIG False False 0 init)))))) = Some 500"
  by (simp add: eval_defs)

text \<open>
  C10. The claim is that in a cycle that never enters the options phase
  \<open>getResponseTimeMs()\<close> is \<open>null\<close> and stays \<open>null\<close> after \<open>enterProcessing()\<close> or
  \<open>enterResult(i)\<close>. \<open>start()\<close> clears neither \<open>optionsStartTimeRef\<close> nor
  \<open>responseTimeMsRef\<close> (\<open>reset()\<close> clears both), so the code does otherwise in a
  cycle begun without \<open>reset()\<close>. The first cycle enters options at 1000 and is not
  answered; the second starts at 6000 and is still in the question phase at 6300, where
  \<open>enterProcessing()\<close> and \<open>enterResult(2)\<close> each store 5300, measured from the first
  cycle's timestamp. And after a first cycle answered in 500 ms, \<open>getResponseTimeMs()\<close>
  is 500 from the start of the second cycle.
\<close>

theorem stale_options_start_in_next_cycle:
  "phase (start DEFAULT_CONFIG False False 6000
            (tickCurrent DEFAULT_CONFIG 1000 (start DEFAULT_CONFIG False False 0 init))) =
     Question \<and>
   getResponseTimeMs
     (start DEFAULT_CONFIG False False 6000
        (tickCurrent DEFAULT_CONFIG 1000 (start DEFAULT_CONFIG False False 0 init))) = None \<and>
   getResponseTimeMs
     (enterProcessing 6300
        (start DEFAULT_CONFIG False False 6000
           (tickCurrent DEFAULT_CONFIG 1000 (start DEFAULT_CONFIG False False 0 init)))) =
     Some 5300 \<and>
   getResponseTimeMs
     (enterResult DEFAULT_CONFIG 2 False 6300
        (start DEFAULT_CONFIG False False 6000
           (tickCurrent DEFAULT_CONFIG 1000 (start DEFAULT_CONFIG False False 0 init)))) =
     Some 5300 \<and>
   getResponseTimeMs
     (start DEFAULT_CONFIG False False 6000
        (select DEFAULT_CONFIG 0 False 1500
           (tickCurrent DEFAULT_CONFIG 1000 (start DEFAULT_CONFIG False False 0 init)))) =
     Some 500"
  by (simp add: eval_defs)

theorem stale_options_start_in_next_cycle_witness:
  "getResponseTimeMs
     (enterProcessing 6300
        (start DEFAULT_CONFIG False False 6000
           (tickCurrent DEFAULT_CONFIG 1000 (start DEFAULT_CONFIG False False 0 init)))) \<noteq>
     None"
  by (simp add: stale_options_start_in_next_cycle)

text \<open>
  What does hold: in every reachable state a stored response time implies a recorded
  options start timestamp. So while no options start timestamp is recorded (from
  construction or \<open>reset()\<close> until the options phase is first entered),
  \<open>getResponseTimeMs()\<close> is \<open>null\<close>, and it is still \<open>null\<close> after
  \<open>enterProcessing()\<close> or \<open>enterResult(i)\<close>.
\<close>

lemma no_response_time_without_options:
  assumes "reachable cfg s"
  shows "(getResponseTimeMs s \<noteq> None \<longrightarrow> optionsStartTimeRef s \<noteq> None) \<and>
         (optionsStartTimeRef s = None \<longrightarrow>
            getResponseTimeMs s = None \<and>
            getResponseTimeMs (enterProcessing now s) = None \<and>
            getResponseTimeMs (enterResult cfg i sk now s) = None)"
proof -
  have inv: "responseTimeMsRef s = None \<or> optionsStartTimeRef s \<noteq> None"
    using reachable_captured_after_options [OF assms]
    by (simp add: captured_after_options_def)
  have p: "optionsStartTimeRef s = None \<Longrightarrow> responseTimeMsRef (enterProcessing now s) = None"
    using inv
    by (simp add: enterProcessing_def recordResponseTime_def clearTimer_eq)
  have r: "optionsStartTimeRef s = None \<Longrightarrow>
           responseTimeMsRef (enterResult cfg i sk now s) = None"
    using inv
    by (simp add: enterResult_def recordResponseTime_def clearTimer_eq Let_def setTimer_def)
  show ?thesis using inv p r by (auto simp: getResponseTimeMs_def)
qed

lemma no_response_time_without_options_witness:
  "reachable DEFAULT_CONFIG (start DEFAULT_CONFIG False False 0 init) \<and>
   optionsStartTimeRef (start DEFAULT_CONFIG False False 0 init) = None \<and>
   getResponseTimeMs (start DEFAULT_CONFIG False False 0 init) = None \<and>
   getResponseTimeMs (enterProcessing 300 (start DEFAULT_CONFIG False False 0 init)) = None \<and>
   getResponseTimeMs
     (enterResult DEFAULT_CONFIG 2 False 300 (start DEFAULT_CONFIG False False 0 init)) = None"
proof -
  have r: "reachable DEFAULT_CONFIG (start DEFAULT_CONFIG False False 0 init)"
    by (rule r_start [OF r_init])
  have o: "optionsStartTimeRef (start DEFAULT_CONFIG False False 0 init) = None"
    by (simp add: start_def Let_def startCountdown_fields emit_def clearTimer_eq init_def)
  from no_response_time_without_options [OF r, of 300 2 False] r o
  show ?thesis by blast
qed

section \<open>Answering and timing out\<close>

text \<open>
  C4. In the options phase with no answer yet, \<open>select(i)\<close> sets \<open>selectedIndex\<close> to
  \<open>i\<close> and the phase to result, and a following \<open>select(j)\<close> returns the state
  unchanged (for every \<open>j\<close>, equal to \<open>i\<close> or not). In general \<open>select\<close> returns its
  state unchanged when the phase is not options or an answer is already set. \<open>select\<close>
  is total: it has no failing branch.
\<close>

theorem select_idempotent:
  "(phase s = Options \<and> selectedIndex s = None \<longrightarrow>
      selectedIndex (select cfg i sk1 t1 s) = Some i \<and>
      phase (select cfg i sk1 t1 s) = Result \<and>
      select cfg j sk2 t2 (select cfg i sk1 t1 s) = select cfg i sk1 t1 s) \<and>
   (phase s \<noteq> Options \<or> selectedIndex s \<noteq> None \<longrightarrow> select cfg j sk2 t2 s = s)"
  by (simp add: select_def enterResult_fields)

theorem select_idempotent_witness:
  "phase (tickCurrent DEFAULT_CONFIG 1000 (start DEFAULT_CONFIG False False 0 init)) = Options \<and>
   selectedIndex (tickCurrent DEFAULT_CONFIG 1000 (start DEFAULT_CONFIG False False 0 init)) = None \<and>
   selectedIndex
     (select DEFAULT_CONFIG 3 False 2500
        (select DEFAULT_CONFIG 1 False 2000
           (tickCurrent DEFAULT_CONFIG 1000 (start DEFAULT_CONFIG False False 0 init)))) = Some 1 \<and>
   phase
     (select DEFAULT_CONFIG 3 False 2500
        (select DEFAULT_CONFIG 1 False 2000
           (tickCurrent DEFAULT_CONFIG 1000 (start DEFAULT_CONFIG False False 0 init)))) = Result"
proof -
  let ?s = "tickCurrent DEFAULT_CONFIG 1000 (start DEFAULT_CONFIG False False 0 init)"
  have cd: "activeCountdown (start DEFAULT_CONFIG False False 0 init) =
              Some (Interval 0 (questionDuration DEFAULT_CONFIG) (QuestionOnEnd False))"
    by (rule start_now)
  have el: "questionDuration DEFAULT_CONFIG \<le> 1000 - 0" by (simp add: DEFAULT_CONFIG_def)
  obtain s' where s': "?s = runCallback DEFAULT_CONFIG (QuestionOnEnd False) 1000 s'"
      "selectedIndex s' = selectedIndex (start DEFAULT_CONFIG False False 0 init)"
    using tickCurrent_fires [OF cd el] by blast
  have h: "phase ?s = Options" "selectedIndex ?s = None"
    unfolding s'(1) using s'(2) by (simp_all add: questionOnEnd_now start_now)
  from select_idempotent [of ?s DEFAULT_CONFIG 1 False 2000 3 False 2500] h
  show ?thesis by simp
qed

text \<open>
  C5. A cycle started by \<open>start()\<close> without delay options in which nothing is called:
  the question countdown ticks at the times \<open>ts1\<close> (all before it elapses) and then at
  \<open>t1\<close>, when \<open>questionDuration\<close> has elapsed; the options countdown ticks at \<open>ts2\<close>
  and then at \<open>t2\<close>, when \<open>optionsDuration\<close> has elapsed. The controller is in phase
  question, then options (still unanswered), then result with \<open>selectedIndex = -1\<close>.
  This holds from every state \<open>s\<close> in which \<open>start\<close> is called.
\<close>

theorem timeout_yields_minus_one:
  assumes "\<forall>t\<in>set ts1. t - t0 < questionDuration cfg"
    and "questionDuration cfg \<le> t1 - t0"
    and "\<forall>t\<in>set ts2. t - t1 < optionsDuration cfg"
    and "optionsDuration cfg \<le> t2 - t1"
  shows "let a = ticks cfg ts1 (start cfg False False t0 s);
             b = ticks cfg ts2 (tickCurrent cfg t1 a);
             c = tickCurrent cfg t2 b
         in phase a = Question \<and> phase b = Options \<and> selectedIndex b = None \<and>
            phase c = Result \<and> selectedIndex c = Some (- 1)"
proof -
  let ?s0 = "start cfg False False t0 s"
  let ?q = "Interval t0 (questionDuration cfg) (QuestionOnEnd False)"
  let ?o = "Interval t1 (optionsDuration cfg) OptionsTimeout"
  obtain r where a: "ticks cfg ts1 ?s0 = ?s0\<lparr>remainingMs := r\<rparr>"
    using ticks_early [of ?s0 t0 "questionDuration cfg" "QuestionOnEnd False" ts1 cfg] assms(1)
    by (auto simp: start_now)
  let ?a = "?s0\<lparr>remainingMs := r\<rparr>"
  have a_cd: "activeCountdown ?a = Some ?q"
    by (simp add: activeCountdown_remainingMs start_now)
  have a_ph: "phase ?a = Question" "selectedIndex ?a = None"
    by (simp_all add: start_now)
  obtain a' where a': "tickCurrent cfg t1 ?a = runCallback cfg (QuestionOnEnd False) t1 a'"
      "phase a' = phase ?a" "selectedIndex a' = selectedIndex ?a"
    using tickCurrent_fires [OF a_cd assms(2)] by blast
  let ?b0 = "runCallback cfg (QuestionOnEnd False) t1 a'"
  have b0_cd: "activeCountdown ?b0 = Some ?o" by (rule questionOnEnd_now)
  obtain r' where b: "ticks cfg ts2 ?b0 = ?b0\<lparr>remainingMs := r'\<rparr>"
    using ticks_early [OF b0_cd assms(3)] by blast
  let ?b = "?b0\<lparr>remainingMs := r'\<rparr>"
  have b_cd: "activeCountdown ?b = Some ?o"
    by (simp add: activeCountdown_remainingMs b0_cd)
  have b_ph: "phase ?b = Options" "selectedIndex ?b = None"
    using a'(3) a_ph(2) by (simp_all add: questionOnEnd_now)
  obtain b' where b': "tickCurrent cfg t2 ?b = runCallback cfg OptionsTimeout t2 b'"
    using tickCurrent_fires [OF b_cd assms(4)] by blast
  have c_ph: "phase (tickCurrent cfg t2 ?b) = Result"
      "selectedIndex (tickCurrent cfg t2 ?b) = Some (- 1)"
    unfolding b' by (simp_all add: runCallback_def enterResult_fields)
  show ?thesis
    using a a' b a_ph b_ph c_ph by (simp add: Let_def)
qed

theorem timeout_yields_minus_one_witness:
  "questionDuration DEFAULT_CONFIG \<le> 1000 - 0 \<and>
   optionsDuration DEFAULT_CONFIG \<le> 5000 - 1000 \<and>
   (let a = ticks DEFAULT_CONFIG [50, 100] (start DEFAULT_CONFIG False False 0 init);
        b = ticks DEFAULT_CONFIG [1050] (tickCurrent DEFAULT_CONFIG 1000 a);
        c = tickCurrent DEFAULT_CONFIG 5000 b
    in phase a = Question \<and> phase b = Options \<and> selectedIndex b = None \<and>
       phase c = Result \<and> selectedIndex c = Some (- 1))"
proof -
  have h1: "\<forall>t\<in>set [50, 100]. t - 0 < questionDuration DEFAULT_CONFIG"
    by (simp add: DEFAULT_CONFIG_def)
  have h2: "questionDuration DEFAULT_CONFIG \<le> 1000 - 0" by (simp add: DEFAULT_CONFIG_def)
  have h3: "\<forall>t\<in>set [1050]. t - 1000 < optionsDuration DEFAULT_CONFIG"
    by (simp add: DEFAULT_CONFIG_def)
  have h4: "optionsDuration DEFAULT_CONFIG \<le> 5000 - 1000" by (simp add: DEFAULT_CONFIG_def)
  from timeout_yields_minus_one [OF h1 h2 h3 h4, of init] h1 h2 h3 h4
  show ?thesis by blast
qed

section \<open>The deferred question countdown\<close>

text \<open>
  C7. \<open>start({delayQuestionCountdown: true})\<close> leaves the phase question, \<open>remainingMs\<close>
  equal to \<open>questionDuration\<close>, the countdown descriptor pending and no countdown
  running, so a tick of the countdown changes nothing; if every pending timer was held
  by a ref, no timer at all is pending and no timer callback can run. Then
  \<open>startQuestionCountdown()\<close> at \<open>t1\<close> clears the descriptor and starts the countdown:
  a tick before \<open>questionDuration\<close> has elapsed only lowers \<open>remainingMs\<close>, a tick after
  it enters the options phase. With nothing pending \<open>startQuestionCountdown()\<close> returns
  the state unchanged.
\<close>

theorem deferred_question_countdown:
  "(let s1 = start cfg dO True t0 s;
        s2 = startQuestionCountdown t1 s1
    in phase s1 = Question \<and> remainingMs s1 = questionDuration cfg \<and>
       pendingCountdownRef s1 = Some (questionDuration cfg, QuestionOnEnd dO) \<and>
       activeCountdown s1 = None \<and> tickCurrent cfg ta s1 = s1 \<and>
       (tracked s \<longrightarrow> timers s1 = [] \<and> tick cfg k ta s1 = s1 \<and> fireTimeout cfg k s1 = s1) \<and>
       pendingCountdownRef s2 = None \<and> phase s2 = Question \<and>
       remainingMs s2 = questionDuration cfg \<and>
       activeCountdown s2 = Some (Interval t1 (questionDuration cfg) (QuestionOnEnd dO)) \<and>
       (ta - t1 < questionDuration cfg \<longrightarrow>
          tickCurrent cfg ta s2 = s2\<lparr>remainingMs := questionDuration cfg - (ta - t1)\<rparr>) \<and>
       (questionDuration cfg \<le> tb - t1 \<longrightarrow> phase (tickCurrent cfg tb s2) = Options)) \<and>
   (pendingCountdownRef s = None \<longrightarrow> startQuestionCountdown t1 s = s)"
proof -
  let ?s1 = "start cfg dO True t0 s"
  let ?s2 = "startQuestionCountdown t1 ?s1"
  let ?qd = "questionDuration cfg"
  have s2: "?s2 = startCountdown ?qd (QuestionOnEnd dO) t1
                    (?s1\<lparr>pendingCountdownRef := None, isPaused := False\<rparr>)"
    by (rule startQuestionCountdown_pending) (simp add: start_delayed_fields)
  have cd: "activeCountdown ?s2 = Some (Interval t1 ?qd (QuestionOnEnd dO))"
    unfolding s2 by (rule activeCountdown_startCountdown)
  have f2: "pendingCountdownRef ?s2 = None" "phase ?s2 = Question" "remainingMs ?s2 = ?qd"
    unfolding s2 by (simp_all add: startCountdown_fields start_delayed_fields)
  have early: "ta - t1 < ?qd \<Longrightarrow> tickCurrent cfg ta ?s2 = ?s2\<lparr>remainingMs := ?qd - (ta - t1)\<rparr>"
    using cd by (rule tickCurrent_early)
  have late: "phase (tickCurrent cfg tb ?s2) = Options" if el: "?qd \<le> tb - t1"
  proof -
    obtain s' where "tickCurrent cfg tb ?s2 = runCallback cfg (QuestionOnEnd dO) tb s'"
      using tickCurrent_fires [OF cd el] by blast
    then show ?thesis by (simp add: questionOnEnd_now)
  qed
  have idle: "activeCountdown ?s1 = None" "tickCurrent cfg ta ?s1 = ?s1"
    by (simp_all add: activeCountdown_def tickCurrent_def start_delayed_fields)
  have quiet: "timers ?s1 = [] \<and> tick cfg k ta ?s1 = ?s1 \<and> fireTimeout cfg k ?s1 = ?s1"
    if "tracked s"
  proof -
    have "timers ?s1 = []" using that by (simp add: start_delayed_fields tracked_def)
    then show ?thesis by (simp add: no_timer_no_callback)
  qed
  have noop: "pendingCountdownRef s = None \<Longrightarrow> startQuestionCountdown t1 s = s"
    by (simp add: startQuestionCountdown_def)
  show ?thesis
    unfolding Let_def
    using idle quiet cd f2 early late noop
    by (simp add: start_delayed_fields)
qed

theorem deferred_question_countdown_witness:
  "tracked init \<and> pendingCountdownRef init = None \<and>
   (120 - 100 < questionDuration DEFAULT_CONFIG) \<and>
   (questionDuration DEFAULT_CONFIG \<le> 1100 - 100) \<and>
   (let s1 = start DEFAULT_CONFIG False True 0 init;
        s2 = startQuestionCountdown 100 s1
    in phase s1 = Question \<and> remainingMs s1 = 1000 \<and> timers s1 = [] \<and>
       tick DEFAULT_CONFIG 1 120 s1 = s1 \<and> fireTimeout DEFAULT_CONFIG 1 s1 = s1 \<and>
       pendingCountdownRef s2 = None \<and>
       activeCountdown s2 = Some (Interval 100 1000 (QuestionOnEnd False)) \<and>
       remainingMs (tickCurrent DEFAULT_CONFIG 120 s2) = 980 \<and>
       phase (tickCurrent DEFAULT_CONFIG 120 s2) = Question \<and>
       phase (tickCurrent DEFAULT_CONFIG 1100 s2) = Options) \<and>
   startQuestionCountdown 100 init = init"
proof -
  have t: "tracked init" by (simp add: tracked_def orphans_def init_def)
  have p: "pendingCountdownRef init = None" by (simp add: init_def)
  have q: "questionDuration DEFAULT_CONFIG = 1000" by (simp add: DEFAULT_CONFIG_def)
  from deferred_question_countdown [of DEFAULT_CONFIG False 0 init 100 120 1 1100] t p q
  show ?thesis by (simp add: Let_def startCountdown_fields)
qed

section \<open>Reset\<close>

text \<open>
  C8. The claim is that after any sequence of operations \<open>reset()\<close> clears everything,
  so that a following \<open>start()\<close> behaves as on a fresh controller. \<open>resume()\<close>
  overwrites \<open>resultTimeoutRef\<close> without cancelling the timeout it holds
  (\<open>startResultTimeout\<close> cancels it first), and \<open>reset()\<close> cancels only what the refs
  hold. With \<open>onComplete\<close> supplied: an answer at 1500, a pause at 1700,
  \<open>startResultTimeout()\<close> at 1800 and a resume at 1900 leave the timeout set at 1800
  pending and held by no ref; it is still pending after \<open>reset()\<close>, and in the cycle
  started at 2500 it calls \<open>onComplete\<close> during the question phase. On a fresh
  controller \<open>start()\<close> at 2500 leaves only the question interval pending and no
  collaborator call is made.
\<close>

theorem orphaned_timeout_survives_reset:
  "timers
     (reset
        (resume (DEFAULT_CONFIG\<lparr>onComplete := True\<rparr>) 1900
           (startResultTimeout (DEFAULT_CONFIG\<lparr>onComplete := True\<rparr>) 1800
              (pause (DEFAULT_CONFIG\<lparr>onComplete := True\<rparr>) 1700
                 (select (DEFAULT_CONFIG\<lparr>onComplete := True\<rparr>) 0 False 1500
                    (tickCurrent (DEFAULT_CONFIG\<lparr>onComplete := True\<rparr>) 1000
                       (start (DEFAULT_CONFIG\<lparr>onComplete := True\<rparr>) False False 0 init))))))) =
     [(4, Timeout 1800 1500)] \<and>
   phase
     (fireTimeout (DEFAULT_CONFIG\<lparr>onComplete := True\<rparr>) 4
        (start (DEFAULT_CONFIG\<lparr>onComplete := True\<rparr>) False False 2500
           (reset
              (resume (DEFAULT_CONFIG\<lparr>onComplete := True\<rparr>) 1900
                 (startResultTimeout (DEFAULT_CONFIG\<lparr>onComplete := True\<rparr>) 1800
                    (pause (DEFAULT_CONFIG\<lparr>onComplete := True\<rparr>) 1700
                       (select (DEFAULT_CONFIG\<lparr>onComplete := True\<rparr>) 0 False 1500
                          (tickCurrent (DEFAULT_CONFIG\<lparr>onComplete := True\<rparr>) 1000
                             (start (DEFAULT_CONFIG\<lparr>onComplete := True\<rparr>) False False 0
                                init))))))))) = Question \<and>
   fired
     (fireTimeout (DEFAULT_CONFIG\<lparr>onComplete := True\<rparr>) 4
        (start (DEFAULT_CONFIG\<lparr>onComplete := True\<rparr>) False False 2500
           (reset
              (resume (DEFAULT_CONFIG\<lparr>onComplete := True\<rparr>) 1900
                 (startResultTimeout (DEFAULT_CONFIG\<lparr>onComplete := True\<rparr>) 1800
                    (pause (DEFAULT_CONFIG\<lparr>onComplete := True\<rparr>) 1700
                       (select (DEFAULT_CONFIG\<lparr>onComplete := True\<rparr>) 0 False 1500
                          (tickCurrent (DEFAULT_CONFIG\<lparr>onComplete := True\<rparr>) 1000
                             (start (DEFAULT_CONFIG\<lparr>onComplete := True\<rparr>) False False 0
                                init))))))))) = [Complete] \<and>
   timers (start (DEFAULT_CONFIG\<lparr>onComplete := True\<rparr>) False False 2500 init) =
     [(1, Interval 2500 1000 (QuestionOnEnd False))] \<and>
   fired (start (DEFAULT_CONFIG\<lparr>onComplete := True\<rparr>) False False 2500 init) = []"
  by (simp add: eval_defs)

theorem orphaned_timeout_survives_reset_witness:
  "length
     (timers
        (reset
           (resume (DEFAULT_CONFIG\<lparr>onComplete := True\<rparr>) 1900
              (startResultTimeout (DEFAULT_CONFIG\<lparr>onComplete := True\<rparr>) 1800
                 (pause (DEFAULT_CONFIG\<lparr>onComplete := True\<rparr>) 1700
                    (select (DEFAULT_CONFIG\<lparr>onComplete := True\<rparr>) 0 False 1500
                       (tickCurrent (DEFAULT_CONFIG\<lparr>onComplete := True\<rparr>) 1000
                          (start (DEFAULT_CONFIG\<lparr>onComplete := True\<rparr>) False False 0
                             init)))))))) = 1"
  by (simp add: orphaned_timeout_survives_reset)

text \<open>
  What \<open>reset()\<close> does do, whatever the state: it gives phase idle, \<open>selectedIndex\<close>
  null, \<open>remainingMs\<close> 0, \<open>isPaused\<close> false and every ref its initial value. The result
  is the initial state except for the runtime's handle counter, the record of past
  collaborator calls, and the pending timers that no ref held (none, if every pending
  timer was held by a ref). A following \<open>start()\<close> gives the same controller view, makes
  the same collaborator calls and sets the same timer as on a fresh controller.
\<close>

lemma reset_clears_everything:
  "reset s = init\<lparr>timers := orphans s, nextTimerId := nextTimerId s, fired := fired s\<rparr> \<and>
   phase (reset s) = Idle \<and> selectedIndex (reset s) = None \<and>
   remainingMs (reset s) = 0 \<and> isPaused (reset s) = False \<and>
   controllerView (reset s) = controllerView init \<and>
   controllerView (start cfg dO dQ now (reset s)) = controllerView (start cfg dO dQ now init) \<and>
   fired (start cfg dO dQ now (reset s)) = fired (start cfg dO dQ now init) @ fired s \<and>
   (tracked s \<longrightarrow>
      timers (reset s) = [] \<and>
      map snd (timers (start cfg dO dQ now (reset s))) =
        map snd (timers (start cfg dO dQ now init)))"
proof -
  have v: "controllerView (reset s) = controllerView init"
    by (simp add: reset_eq controllerView_def activeCountdown_def activeResultTimeout_def
        init_def)
  have f: "phase (reset s) = Idle" "selectedIndex (reset s) = None"
      "remainingMs (reset s) = 0" "isPaused (reset s) = False"
    by (simp_all add: reset_eq init_def)
  have t: "tracked s \<Longrightarrow> reset s = init\<lparr>timers := [], nextTimerId := nextTimerId s, fired := fired s\<rparr>"
    by (simp add: reset_eq tracked_def)
  have t1: "tracked s \<Longrightarrow> timers (reset s) = []"
    by (simp add: reset_eq tracked_def)
  have t2: "tracked s \<Longrightarrow> map snd (timers (start cfg dO dQ now (reset s))) =
        map snd (timers (start cfg dO dQ now init))"
    by (simp only: t start_after_reset)
  have a: "controllerView (start cfg dO dQ now (reset s)) = controllerView (start cfg dO dQ now init)"
    by (simp only: reset_eq start_after_reset)
  have b: "fired (start cfg dO dQ now (reset s)) = fired (start cfg dO dQ now init) @ fired s"
    by (simp only: reset_eq start_after_reset)
  show ?thesis using v f t1 t2 a b reset_eq by blast
qed

lemma reset_clears_everything_witness:
  "tracked (select DEFAULT_CONFIG 2 False 1500
      (tickCurrent DEFAULT_CONFIG 1000 (start DEFAULT_CONFIG False False 0 init))) \<and>
   responseTimeMsRef (select DEFAULT_CONFIG 2 False 1500
      (tickCurrent DEFAULT_CONFIG 1000 (start DEFAULT_CONFIG False False 0 init))) = Some 500 \<and>
   reset (select DEFAULT_CONFIG 2 False 1500
      (tickCurrent DEFAULT_CONFIG 1000 (start DEFAULT_CONFIG False False 0 init))) =
     init\<lparr>nextTimerId := 4\<rparr> \<and>
   controllerView (start DEFAULT_CONFIG False False 2000
      (reset (select DEFAULT_CONFIG 2 False 1500
         (tickCurrent DEFAULT_CONFIG 1000 (start DEFAULT_CONFIG False False 0 init))))) =
     controllerView (start DEFAULT_CONFIG False False 2000 init) \<and>
   map snd (timers (start DEFAULT_CONFIG False False 2000
      (reset (select DEFAULT_CONFIG 2 False 1500
         (tickCurrent DEFAULT_CONFIG 1000 (start DEFAULT_CONFIG False False 0 init)))))) =
     [Interval 2000 1000 (QuestionOnEnd False)]"
proof -
  let ?s = "select DEFAULT_CONFIG 2 False 1500
      (tickCurrent DEFAULT_CONFIG 1000 (start DEFAULT_CONFIG False False 0 init))"
  have s: "?s =
    \<lparr>phase = Result, remainingMs = 4000, selectedIndex = Some 2, isPaused = False,
     timerRef = None, resultTimeoutRef = Some 3,
     optionsStartTimeRef = Some 1000, responseTimeMsRef = Some 500,
     pausedRemainingRef = 0, pausedOnEndRef = None, currentOnEndRef = Some OptionsTimeout,
     resultStartTimeRef = 1500, pausedResultRemainingRef = 0, pendingCountdownRef = None,
     timers = [(3, Timeout 1500 1500)], nextTimerId = 4, fired = []\<rparr>"
    by (simp add: eval_defs)
  have t: "tracked ?s" unfolding s by (simp add: tracked_def orphans_def)
  have i: "map snd (timers (start DEFAULT_CONFIG False False 2000 init)) =
             [Interval 2000 1000 (QuestionOnEnd False)]"
    by (simp add: eval_defs)
  note th = reset_clears_everything [of ?s DEFAULT_CONFIG False False 2000]
  have r1: "reset ?s =
      init\<lparr>timers := orphans ?s, nextTimerId := nextTimerId ?s, fired := fired ?s\<rparr>"
    using th by blast
  have o: "orphans ?s = []" using t by (simp add: tracked_def)
  have n: "nextTimerId ?s = 4" "fired ?s = []" "responseTimeMsRef ?s = Some 500"
    by (simp_all add: s)
  have r2: "reset ?s = init\<lparr>nextTimerId := 4\<rparr>"
    unfolding r1 o n by (simp add: init_def)
  have v: "controllerView (start DEFAULT_CONFIG False False 2000 (reset ?s)) =
      controllerView (start DEFAULT_CONFIG False False 2000 init)"
    using th by blast
  have m: "map snd (timers (start DEFAULT_CONFIG False False 2000 (reset ?s))) =
      map snd (timers (start DEFAULT_CONFIG False False 2000 init))"
    using th t by blast
  show ?thesis using t n(3) r2 v m i by simp
qed

text \<open>
  The state with the unheld timeout is reachable, with the default configuration too.
\<close>

lemma resume_orphans_result_timeout:
  "reachable DEFAULT_CONFIG
     (resume DEFAULT_CONFIG 1900
        (startResultTimeout DEFAULT_CONFIG 1800
           (pause DEFAULT_CONFIG 1700
              (select DEFAULT_CONFIG 0 False 1500
                 (tickCurrent DEFAULT_CONFIG 1000
                    (start DEFAULT_CONFIG False False 0 init)))))) \<and>
   timers
     (reset
        (resume DEFAULT_CONFIG 1900
           (startResultTimeout DEFAULT_CONFIG 1800
              (pause DEFAULT_CONFIG 1700
                 (select DEFAULT_CONFIG 0 False 1500
                    (tickCurrent DEFAULT_CONFIG 1000
                       (start DEFAULT_CONFIG False False 0 init))))))) =
     [(4, Timeout 1800 1500)]"
proof -
  let ?a = "start DEFAULT_CONFIG False False 0 init"
  have t: "tickCurrent DEFAULT_CONFIG 1000 ?a = tick DEFAULT_CONFIG 1 1000 ?a"
    by (simp add: eval_defs)
  have "reachable DEFAULT_CONFIG (tickCurrent DEFAULT_CONFIG 1000 ?a)"
    unfolding t by (intro reachable.intros)
  then have "reachable DEFAULT_CONFIG
     (resume DEFAULT_CONFIG 1900
        (startResultTimeout DEFAULT_CONFIG 1800
           (pause DEFAULT_CONFIG 1700
              (select DEFAULT_CONFIG 0 False 1500
                 (tickCurrent DEFAULT_CONFIG 1000 ?a)))))"
    by (intro reachable.intros)
  moreover have "timers
     (reset
        (resume DEFAULT_CONFIG 1900
           (startResultTimeout DEFAULT_CONFIG 1800
              (pause DEFAULT_CONFIG 1700
                 (select DEFAULT_CONFIG 0 False 1500
                    (tickCurrent DEFAULT_CONFIG 1000 ?a)))))) =
     [(4, Timeout 1800 1500)]"
    by (simp add: eval_defs)
  ultimately show ?thesis by blast
qed

section \<open>Wrong-phase calls\<close>

text \<open>
  C9. \<open>startOptionsCountdown\<close> called outside the options phase and
  \<open>startResultTimeout\<close> called outside the result phase return the state they were
  given: no field changes, no timer is set, and both are total, so nothing is raised.
\<close>

theorem wrong_phase_calls_ignored:
  "(phase s \<noteq> Options \<longrightarrow> startOptionsCountdown cfg onTimeout now s = s) \<and>
   (phase s \<noteq> Result \<longrightarrow> startResultTimeout cfg now s = s)"
  by (simp add: startOptionsCountdown_def startResultTimeout_def)

theorem wrong_phase_calls_ignored_witness:
  "phase init \<noteq> Options \<and> startOptionsCountdown DEFAULT_CONFIG None 7 init = init \<and>
   phase init \<noteq> Result \<and> startResultTimeout DEFAULT_CONFIG 7 init = init"
  using wrong_phase_calls_ignored [of init DEFAULT_CONFIG None 7]
  by (simp add: init_def)

end
